theory Spec2Isabelle
  imports Main "HOL-Library.Word"
begin

section \<open>The nativethread extension module (src/nativethread.c)\<close>

text \<open>
  The module launches a native routine on a detached POSIX thread and lets the caller
  cancel it asynchronously.  Its C functions call into CPython and pthreads; the model
  keeps one definition per C function, under the function's name, and one small
  definition per library call, with the library's documented behaviour.  Everything the
  library or the operating system decides (whether an allocation succeeds, what
  \<open>pthread_create\<close> returns, whether and where a cancellation request is acted upon, what
  a callback returns) is a parameter of the run.
\<close>

subsection \<open>Data\<close>

type_synonym addr = nat
type_synonym pyref = nat
type_synonym pthread_t = nat
type_synonym fnptr = "64 word"

text \<open>\<open>struct ThreadInfo\<close>: four object pointers and the native routine.\<close>

record ThreadInfo =
  ok_cbak :: pyref
  cancel_cbak :: pyref
  err_cbak :: pyref
  data :: pyref
  routine :: fnptr

text \<open>The two kinds of block the module allocates with \<open>malloc\<close>.\<close>

datatype block = ThreadInfo_blk ThreadInfo | pthread_t_blk pthread_t

datatype exc_type = MemoryError | TypeError | OverflowError | SystemError | ValueError

type_synonym pyerr = "exc_type \<times> string"

text \<open>
  What converting an object that is no integer to an integer does: its type has no
  \<open>__index__\<close> (the name of the type is kept, the error text quotes it), \<open>__index__\<close>
  returns an integer, or the conversion raises: the exception \<open>__index__\<close> raised, or
  CPython's \<open>TypeError\<close> for a result that is no integer.
\<close>

datatype index_result = No_index string | Index_returns int | Index_raises pyerr

text \<open>
  What the module can observe of a Python object.  An integer (an \<open>int\<close>, or an
  instance of a subclass, which may define \<open>__call__\<close>): its value and the answer of
  \<open>PyCallable_Check\<close>.  A tuple: its items.  A capsule: its pointer and its name, which
  may be \<open>NULL\<close>.  Every other object: the answer of \<open>PyCallable_Check\<close> and what its
  conversion to an integer does.
\<close>

datatype pyobject =
    PyLong int bool
  | PyTuple "pyref list"
  | PyCapsule addr "string option"
  | PyObject bool index_result

text \<open>
  How a run of the spawned thread goes.  A cancellation request is acted upon only
  while cancellation is enabled and asynchronous: when the asynchronous type is selected
  with a request already pending, while the routine executes, or after the routine has
  returned and before cancellation is disabled.  The routine may also never return.
  The routine is native code the module knows nothing about: it is taken not to change
  the cancellation state or the cleanup stack of its thread, and a routine that brings
  the process down ends every run.
\<close>

datatype schedule =
    Returns
  | Cancelled_pending
  | Cancelled_in_routine
  | Cancelled_after_routine
  | Never_returns

text \<open>The calls the module makes to the outside, in the order it makes them.\<close>

datatype event =
    E_malloc addr
  | E_free addr
  | E_incref pyref
  | E_decref pyref
  | E_gil_ensure
  | E_gil_release
  | E_build_value pyref "pyref option"
  | E_call pyref "pyref list"
  | E_cleanup_push addr
  | E_cleanup_pop
  | E_setcancelstate bool
  | E_setcanceltype_async
  | E_routine fnptr
  | E_routine_returned
  | E_cancelled
  | E_pthread_create addr int
  | E_pthread_cancel pthread_t int

text \<open>
  The process state the module reads and writes: the C heap, the Python objects, the
  balance of references the module has taken and not released (\<open>+1\<close> for \<open>Py_INCREF\<close>
  and for a new reference it receives, \<open>-1\<close> for \<open>Py_DECREF\<close>), the threads created, and
  the trace of events.  The address and the object identity that the next allocation
  gets are counters, so that an allocation is always fresh.  What CPython does with an
  object whose last reference is released is not part of the model.
\<close>

record world =
  heap :: "addr \<rightharpoonup> block"
  next_addr :: addr
  objs :: "pyref \<Rightarrow> pyobject"
  next_obj :: pyref
  refs :: "pyref \<Rightarrow> int"
  threads :: "(pthread_t \<times> addr) list"
  trace :: "event list"

text \<open>What the environment decides during one call of \<open>do_interruptably\<close>.\<close>

record launch_env =
  malloc_info :: "ThreadInfo option"
  attr_init_ret :: int
  setdetachstate_ret :: int
  create_ret :: int
  create_tid :: pthread_t
  malloc_handle :: "pthread_t option"
  capsule_ok :: bool

text \<open>What the environment decides during one run of the spawned thread.\<close>

record thread_env =
  sched :: schedule
  build_ok :: bool
  call_ret :: "pyref option"

subsection \<open>Constants\<close>

definition THREAD_HANDLE_NAME :: string where
  "THREAD_HANDLE_NAME = ''nativethread.thread_handle''"

definition Py_None :: pyref where
  "Py_None = 0"

text \<open>The values of \<open>errno.h\<close> on Linux.\<close>

definition ENOMEM :: int where "ENOMEM = 12"
definition EAGAIN :: int where "EAGAIN = 11"
definition EPERM :: int where "EPERM = 1"

subsection \<open>The C library and CPython\<close>

text \<open>The exception texts of the library calls are those of CPython 3.11.\<close>

definition emit :: "event \<Rightarrow> world \<Rightarrow> world" where
  "emit e w = w\<lparr>trace := trace w @ [e]\<rparr>"

text \<open>
  \<open>malloc\<close>: \<open>None\<close> in the environment is a \<open>NULL\<close> result; otherwise a new block at
  an address never used before, holding the indeterminate contents the environment gives.
\<close>

definition malloc :: "block option \<Rightarrow> world \<Rightarrow> addr option \<times> world" where
  "malloc junk w =
     (case junk of
        None \<Rightarrow> (None, w)
      | Some b \<Rightarrow>
          (Some (next_addr w),
           emit (E_malloc (next_addr w))
             (w\<lparr>heap := (heap w)(next_addr w \<mapsto> b), next_addr := Suc (next_addr w)\<rparr>)))"

definition free :: "addr \<Rightarrow> world \<Rightarrow> world" where
  "free a w = emit (E_free a) (w\<lparr>heap := (heap w)(a := None)\<rparr>)"

definition store :: "addr \<Rightarrow> block \<Rightarrow> world \<Rightarrow> world" where
  "store a b w = w\<lparr>heap := (heap w)(a \<mapsto> b)\<rparr>"

text \<open>An assignment to fields of the \<open>ThreadInfo\<close> that \<open>thr\<close> points to.\<close>

definition set_fields :: "addr \<Rightarrow> (ThreadInfo \<Rightarrow> ThreadInfo) \<Rightarrow> world \<Rightarrow> world" where
  "set_fields thr f w =
     (case heap w thr of
        Some (ThreadInfo_blk ti) \<Rightarrow> store thr (ThreadInfo_blk (f ti)) w
      | _ \<Rightarrow> w)"

definition Py_INCREF :: "pyref \<Rightarrow> world \<Rightarrow> world" where
  "Py_INCREF ob w = emit (E_incref ob) (w\<lparr>refs := (refs w)(ob := refs w ob + 1)\<rparr>)"

definition Py_DECREF :: "pyref \<Rightarrow> world \<Rightarrow> world" where
  "Py_DECREF ob w = emit (E_decref ob) (w\<lparr>refs := (refs w)(ob := refs w ob - 1)\<rparr>)"

definition PyErr_NoMemory :: pyerr where
  "PyErr_NoMemory = (MemoryError, '''')"

definition PyCallable_Check :: "world \<Rightarrow> pyref \<Rightarrow> bool" where
  "PyCallable_Check w ob =
     (case objs w ob of PyLong v c \<Rightarrow> c | PyObject c i \<Rightarrow> c | _ \<Rightarrow> False)"

definition PyCapsule_CheckExact :: "world \<Rightarrow> pyref \<Rightarrow> bool" where
  "PyCapsule_CheckExact w ob = (case objs w ob of PyCapsule p n \<Rightarrow> True | _ \<Rightarrow> False)"

text \<open>
  \<open>PyCapsule_GetPointer\<close> raises \<open>ValueError\<close> both for an object that is no capsule
  and for a capsule stored under another name.
\<close>

definition PyCapsule_GetPointer :: "world \<Rightarrow> pyref \<Rightarrow> string \<Rightarrow> pyerr + addr" where
  "PyCapsule_GetPointer w ob name =
     (case objs w ob of
        PyCapsule p n \<Rightarrow>
          if n = Some name then Inr p
          else Inl (ValueError, ''PyCapsule_GetPointer called with incorrect name'')
      | _ \<Rightarrow> Inl (ValueError, ''PyCapsule_GetPointer called with invalid PyCapsule object''))"

text \<open>
  \<open>PyCapsule_New\<close> with a non-null pointer: a new capsule object, or \<open>NULL\<close> with
  \<open>MemoryError\<close> when the object cannot be allocated.  The new reference goes to the
  caller of the module function.
\<close>

definition PyCapsule_New :: "bool \<Rightarrow> addr \<Rightarrow> string \<Rightarrow> world \<Rightarrow> (pyerr + pyref) \<times> world" where
  "PyCapsule_New ok p name w =
     (if ok then
        (Inr (next_obj w),
         w\<lparr>objs := (objs w)(next_obj w := PyCapsule p (Some name)), next_obj := Suc (next_obj w)\<rparr>)
      else (Inl PyErr_NoMemory, w))"

text \<open>A natural number in decimal, as CPython's error texts print it.\<close>

fun decimal :: "nat \<Rightarrow> string" where
  "decimal n =
     (if n < 10 then [char_of (48 + n)]
      else decimal (n div 10) @ [char_of (48 + n mod 10)])"

declare decimal.simps [simp del]

text \<open>
  The \<open>TypeError\<close> of CPython for an object of the type named \<open>tp\<close> that cannot be
  converted to an integer; \<open>CHR 0x27\<close> is the single quote around the name.
\<close>

definition not_an_integer :: "string \<Rightarrow> pyerr" where
  "not_an_integer tp =
     (TypeError, [CHR 0x27] @ tp @ [CHR 0x27] @ '' object cannot be interpreted as an integer'')"

text \<open>
  \<open>PyNumber_Index\<close>, the conversion of an object to an integer: an integer is its own
  value, any other object is converted by the \<open>__index__\<close> of its type.
\<close>

definition PyNumber_Index :: "world \<Rightarrow> pyref \<Rightarrow> pyerr + int" where
  "PyNumber_Index w ob =
     (case objs w ob of
        PyLong v c \<Rightarrow> Inr v
      | PyTuple items \<Rightarrow> Inl (not_an_integer ''tuple'')
      | PyCapsule p n \<Rightarrow> Inl (not_an_integer ''PyCapsule'')
      | PyObject c i \<Rightarrow>
          (case i of
             No_index tp \<Rightarrow> Inl (not_an_integer tp)
           | Index_returns v \<Rightarrow> Inr v
           | Index_raises e \<Rightarrow> Inl e))"

text \<open>
  \<open>PyLong_AsLongLong\<close>, used by the format unit \<open>L\<close>: the object is converted to an
  integer, which passes on the error of the conversion; \<open>OverflowError\<close> for an integer
  outside \<open>long long\<close>.
\<close>

definition PyLong_AsLongLong :: "world \<Rightarrow> pyref \<Rightarrow> pyerr + 64 word" where
  "PyLong_AsLongLong w ob =
     (case PyNumber_Index w ob of
        Inl e \<Rightarrow> Inl e
      | Inr v \<Rightarrow>
          if - (2 ^ 63) \<le> v \<and> v < 2 ^ 63 then Inr (word_of_int v)
          else Inl (OverflowError, ''int too big to convert''))"

text \<open>
  \<open>PyArg_ParseTuple(args, "LOOOO", ...)\<close>: five arguments, the first converted to
  \<open>long long\<close>, the other four passed through as borrowed references.
\<close>

definition PyArg_ParseTuple_LOOOO ::
  "world \<Rightarrow> pyref list \<Rightarrow> pyerr + (64 word \<times> pyref \<times> pyref \<times> pyref \<times> pyref)" where
  "PyArg_ParseTuple_LOOOO w args =
     (case args of
        [a0, a1, a2, a3, a4] \<Rightarrow>
          (case PyLong_AsLongLong w a0 of
             Inl e \<Rightarrow> Inl e
           | Inr v \<Rightarrow> Inr (v, a1, a2, a3, a4))
      | _ \<Rightarrow> Inl (TypeError,
             ''function takes exactly 5 arguments ('' @ decimal (length args) @ '' given)''))"

definition PyArg_ParseTuple_O :: "pyref list \<Rightarrow> pyerr + pyref" where
  "PyArg_ParseTuple_O args =
     (case args of
        [a0] \<Rightarrow> Inr a0
      | _ \<Rightarrow> Inl (TypeError,
             ''function takes exactly 1 argument ('' @ decimal (length args) @ '' given)''))"

text \<open>
  \<open>Py_BuildValue("(O)", d)\<close>: a new one-element tuple holding \<open>d\<close>, as a new reference,
  or \<open>NULL\<close> when the tuple cannot be allocated.  (The tuple's own reference to \<open>d\<close> is
  the tuple's, not the module's.)
\<close>

definition Py_BuildValue_O :: "bool \<Rightarrow> pyref \<Rightarrow> world \<Rightarrow> pyref option \<times> world" where
  "Py_BuildValue_O ok d w =
     (if ok then
        (Some (next_obj w),
         emit (E_build_value d (Some (next_obj w)))
           (w\<lparr>objs := (objs w)(next_obj w := PyTuple [d]),
              next_obj := Suc (next_obj w),
              refs := (refs w)(next_obj w := refs w (next_obj w) + 1)\<rparr>))
      else (None, emit (E_build_value d None) w))"

text \<open>
  \<open>PyObject_CallObject(callable, args)\<close>: the call of \<open>callable\<close> with the items of the
  tuple \<open>args\<close>; what the callable does is its own business, its result (a new reference,
  or \<open>NULL\<close> when it raises) is the environment's.
\<close>

definition PyObject_CallObject ::
  "pyref option \<Rightarrow> pyref \<Rightarrow> pyref \<Rightarrow> world \<Rightarrow> pyref option \<times> world" where
  "PyObject_CallObject result callable args w =
     (case objs w args of
        PyTuple items \<Rightarrow>
          (case result of
             Some r \<Rightarrow>
               (Some r, (emit (E_call callable items) w)\<lparr>refs := (refs w)(r := refs w r + 1)\<rparr>)
           | None \<Rightarrow> (None, emit (E_call callable items) w))
      | _ \<Rightarrow> (None, w))"

text \<open>
  \<open>pthread_create\<close>: a nonzero result creates nothing; zero starts a thread running
  \<open>nativethread_run_thread\<close> on the given argument.
\<close>

definition pthread_create :: "int \<Rightarrow> pthread_t \<Rightarrow> addr \<Rightarrow> world \<Rightarrow> int \<times> world" where
  "pthread_create ret tid arg w =
     (if ret \<noteq> 0 then (ret, emit (E_pthread_create arg ret) w)
      else (0, emit (E_pthread_create arg 0) (w\<lparr>threads := threads w @ [(tid, arg)]\<rparr>)))"

definition pthread_cancel :: "int \<Rightarrow> pthread_t \<Rightarrow> world \<Rightarrow> int \<times> world" where
  "pthread_cancel ret tid w = (ret, emit (E_pthread_cancel tid ret) w)"

subsection \<open>Helper functions of the module\<close>

text \<open>
  \<open>handler_exec(thr, routine)\<close>; the second parameter is called \<open>callback\<close> here, since
  \<open>routine\<close> is also a field of the struct.  \<open>None\<close> stands for undefined behaviour:
  \<open>thr\<close> does not point to a live \<open>ThreadInfo\<close>.
\<close>

definition handler_exec :: "thread_env \<Rightarrow> addr \<Rightarrow> pyref \<Rightarrow> world \<Rightarrow> world option" where
  "handler_exec env thr callback w =
     (case heap w thr of
        Some (ThreadInfo_blk ti) \<Rightarrow>
          (let w1 = emit E_gil_ensure w;
               (args, w2) = Py_BuildValue_O (build_ok env) (data ti) w1;
               (ret, w3) =
                 (case args of
                    Some t \<Rightarrow> PyObject_CallObject (call_ret env) callback t w2
                  | None \<Rightarrow> (None, w2));
               w4 = (case args of Some t \<Rightarrow> Py_DECREF t w3 | None \<Rightarrow> w3);
               w5 = (case ret of Some r \<Rightarrow> Py_DECREF r w4 | None \<Rightarrow> w4);
               w6 = Py_DECREF (ok_cbak ti) w5;
               w7 = Py_DECREF (cancel_cbak ti) w6;
               w8 = Py_DECREF (err_cbak ti) w7;
               w9 = Py_DECREF (data ti) w8;
               w10 = emit E_gil_release w9
           in Some (free thr w10))
      | _ \<Rightarrow> None)"

definition nativethread_cancel_handler :: "thread_env \<Rightarrow> addr \<Rightarrow> world \<Rightarrow> world option" where
  "nativethread_cancel_handler env thr w =
     (case heap w thr of
        Some (ThreadInfo_blk ti) \<Rightarrow> handler_exec env thr (cancel_cbak ti) w
      | _ \<Rightarrow> None)"

text \<open>
  The thread stops where the cancellation is acted upon and runs the cleanup handlers it
  has pushed: here the one handler, with the argument it was pushed with.
\<close>

definition act_on_cancel :: "thread_env \<Rightarrow> addr \<Rightarrow> world \<Rightarrow> world option" where
  "act_on_cancel env pushed w = nativethread_cancel_handler env pushed (emit E_cancelled w)"

text \<open>The result of a thread: it has ended, or it is still inside the routine.\<close>

datatype thread_result = Exited world | Running world

definition nativethread_run_thread ::
  "thread_env \<Rightarrow> addr \<Rightarrow> world \<Rightarrow> thread_result option" where
  "nativethread_run_thread env thr w =
     (case heap w thr of
        Some (ThreadInfo_blk ti) \<Rightarrow>
          (let w1 = emit (E_cleanup_push thr) w;
               w2 = emit (E_setcancelstate True) w1;
               w3 = emit E_setcanceltype_async w2
           in if sched env = Cancelled_pending then map_option Exited (act_on_cancel env thr w3)
              else
                let w4 = emit (E_routine (routine ti)) w3
                in if sched env = Never_returns then Some (Running w4)
                   else if sched env = Cancelled_in_routine
                   then map_option Exited (act_on_cancel env thr w4)
                   else
                     let w5 = emit E_routine_returned w4
                     in if sched env = Cancelled_after_routine
                        then map_option Exited (act_on_cancel env thr w5)
                        else
                          let w6 = emit (E_setcancelstate False) w5;
                              w7 = emit E_cleanup_pop w6
                          in map_option Exited (handler_exec env thr (ok_cbak ti) w7))
      | _ \<Rightarrow> None)"

text \<open>
  The destructor of a handle and \<open>make_thread_handle(id)\<close>: the thread identifier lives in
  a block of its own, which the capsule points to under the module's name.
\<close>

definition destroy_thread_handle :: "pyref \<Rightarrow> world \<Rightarrow> world" where
  "destroy_thread_handle handle w =
     (case PyCapsule_GetPointer w handle THREAD_HANDLE_NAME of
        Inr p \<Rightarrow> free p w
      | Inl e \<Rightarrow> w)"

definition make_thread_handle ::
  "launch_env \<Rightarrow> pthread_t \<Rightarrow> world \<Rightarrow> (pyerr + pyref) \<times> world" where
  "make_thread_handle env tid w =
     (case malloc (map_option pthread_t_blk (malloc_handle env)) w of
        (None, w1) \<Rightarrow> (Inl PyErr_NoMemory, w1)
      | (Some thr, w1) \<Rightarrow>
          PyCapsule_New (capsule_ok env) thr THREAD_HANDLE_NAME (store thr (pthread_t_blk tid) w1))"

subsection \<open>Module functions\<close>

text \<open>
  \<open>interrupt(handle)\<close>; the parameter is what \<open>pthread_cancel\<close> returns if it is called.
  Reading through the pointer of a capsule that carries the module's name but does not
  hold a live thread identifier is undefined behaviour: \<open>None\<close>.
\<close>

definition interrupt :: "int \<Rightarrow> pyref list \<Rightarrow> world \<Rightarrow> ((pyerr + pyref) \<times> world) option" where
  "interrupt cancel_ret args w =
     (case PyArg_ParseTuple_O args of
        Inl e \<Rightarrow> Some (Inl e, w)
      | Inr handle \<Rightarrow>
          if \<not> PyCapsule_CheckExact w handle
          then Some (Inl (TypeError, ''expected nativethread.thread_handle''), w)
          else
            (case PyCapsule_GetPointer w handle THREAD_HANDLE_NAME of
               Inl e \<Rightarrow> Some (Inl e, w)
             | Inr thr_handle \<Rightarrow>
                 (case heap w thr_handle of
                    Some (pthread_t_blk thr_id) \<Rightarrow>
                      (case pthread_cancel cancel_ret thr_id w of
                         (failed, w1) \<Rightarrow>
                           if failed \<noteq> 0
                           then Some (Inl (SystemError,
                                  ''thread could not be cancelled (no such thread)''), w1)
                           else Some (Inr Py_None, Py_INCREF Py_None w1))
                  | _ \<Rightarrow> None)))"

text \<open>
  The exception \<open>do_interruptably\<close> sets when starting the thread failed, chosen by the
  error number (the \<open>if (failed == ENOMEM) ... else ...\<close> chain of the function).
\<close>

definition start_error :: "int \<Rightarrow> pyerr" where
  "start_error failed =
     (if failed = ENOMEM then PyErr_NoMemory
      else if failed = EAGAIN then
        (SystemError, ''system could not allocate resources for a new thread'')
      else if failed = EPERM then
        (SystemError, ''could not start thread: insufficient permissions'')
      else (SystemError, ''could not start system thread''))"

text \<open>
  \<open>do_interruptably(native_fnptr, ok_cbak, cancel_cbak, err_cbak, arg)\<close>.  The thread
  attributes are a local of the function: of \<open>pthread_attr_init\<close>,
  \<open>pthread_attr_setdetachstate\<close> and \<open>pthread_attr_destroy\<close> only the results matter,
  and \<open>long long\<close> and the function pointer are 64 bits wide.
\<close>

definition do_interruptably ::
  "launch_env \<Rightarrow> pyref list \<Rightarrow> world \<Rightarrow> (pyerr + pyref) \<times> world" where
  "do_interruptably env args w =
     (case malloc (map_option ThreadInfo_blk (malloc_info env)) w of
        (None, w1) \<Rightarrow> (Inl PyErr_NoMemory, w1)
      | (Some thr, w1) \<Rightarrow>
          (case PyArg_ParseTuple_LOOOO w1 args of
             Inl e \<Rightarrow> (Inl e, free thr w1)
           | Inr (native_fnptr, ok, cancel, err, d) \<Rightarrow>
               (let w2 = set_fields thr
                            (\<lambda>ti. ti\<lparr>ok_cbak := ok, cancel_cbak := cancel,
                                      err_cbak := err, data := d\<rparr>) w1
                in if \<not> (PyCallable_Check w2 ok \<and> PyCallable_Check w2 cancel
                          \<and> PyCallable_Check w2 err)
                   then (Inl (TypeError, ''arguments 2, 3, and 4 must be callable''),
                         free thr w2)
                   else
                     let w3 = Py_INCREF ok w2;
                         w4 = Py_INCREF cancel w3;
                         w5 = Py_INCREF err w4;
                         w6 = Py_INCREF d w5;
                         w7 = set_fields thr (\<lambda>ti. ti\<lparr>routine := native_fnptr\<rparr>) w6;
                         failed = attr_init_ret env;
                         failed = (if failed \<noteq> 0 then failed else setdetachstate_ret env);
                         (failed, w8) =
                           (if failed \<noteq> 0 then (failed, w7)
                            else pthread_create (create_ret env) (create_tid env) thr w7)
                     in if failed \<noteq> 0
                        then (Inl (start_error failed), free thr w8)
                        else make_thread_handle env (create_tid env) w8)))"

subsection \<open>Observations\<close>

text \<open>The events that are invocations of a Python callable.\<close>

fun is_call :: "event \<Rightarrow> bool" where
  "is_call (E_call c xs) = True"
| "is_call e = False"

fun world_of :: "thread_result \<Rightarrow> world" where
  "world_of (Exited w) = w"
| "world_of (Running w) = w"

fun has_exited :: "thread_result \<Rightarrow> bool" where
  "has_exited (Exited w) = True"
| "has_exited (Running w) = False"

text \<open>The events a step from \<open>w\<close> to \<open>w'\<close> has added.\<close>

definition new_events :: "world \<Rightarrow> world \<Rightarrow> event list" where
  "new_events w w' = drop (length (trace w)) (trace w')"

text \<open>
  The states the module reaches: every block lies below the allocation counter, and a
  capsule with the module's name points below the counter and not to a \<open>ThreadInfo\<close>
  (\<open>make_thread_handle\<close> makes it point to a thread identifier, the destructor leaves the
  pointer dangling, and no address is handed out twice).
\<close>

definition well_formed :: "world \<Rightarrow> bool" where
  "well_formed w \<longleftrightarrow>
     (\<forall>a b. heap w a = Some b \<longrightarrow> a < next_addr w) \<and>
     (\<forall>h p. objs w h = PyCapsule p (Some THREAD_HANDLE_NAME) \<longrightarrow>
        p < next_addr w \<and> (\<forall>ti. heap w p \<noteq> Some (ThreadInfo_blk ti)))"

subsection \<open>Example inputs\<close>

text \<open>
  A process with no block allocated and these objects: \<open>1\<close> is the integer \<open>4096\<close>,
  \<open>2\<close>, \<open>3\<close> and \<open>4\<close> are functions, \<open>6\<close> is the integer \<open>2 ^ 63\<close>, \<open>7\<close> is a capsule
  of another module, \<open>8\<close> is an object that is no integer and not callable and whose
  \<open>__index__\<close> returns \<open>4096\<close>, the \<open>__index__\<close> of \<open>9\<close> raises \<open>ValueError\<close>; every
  other object (\<open>None\<close> is \<open>0\<close>) is a plain object, not callable and with no \<open>__index__\<close>.
\<close>

definition objs0 :: "pyref \<Rightarrow> pyobject" where
  "objs0 = (\<lambda>ob. PyObject False (No_index ''object''))
     (1 := PyLong 4096 False,
      2 := PyObject True (No_index ''function''),
      3 := PyObject True (No_index ''function''),
      4 := PyObject True (No_index ''function''),
      6 := PyLong (2 ^ 63) False,
      7 := PyCapsule 0 (Some ''other.handle''),
      8 := PyObject False (Index_returns 4096),
      9 := PyObject False (Index_raises (ValueError, ''boom'')))"

definition w0 :: world where
  "w0 = \<lparr>heap = Map.empty, next_addr = 0, objs = objs0, next_obj = 10,
         refs = (\<lambda>ob. 0), threads = [], trace = []\<rparr>"

definition junk0 :: ThreadInfo where
  "junk0 = \<lparr>ok_cbak = 0, cancel_cbak = 0, err_cbak = 0, data = 0, routine = 0\<rparr>"

text \<open>An environment in which every library call of a launch succeeds.\<close>

definition lenv0 :: launch_env where
  "lenv0 = \<lparr>malloc_info = Some junk0, attr_init_ret = 0, setdetachstate_ret = 0,
            create_ret = 0, create_tid = 7, malloc_handle = Some 0, capsule_ok = True\<rparr>"

text \<open>A run in which the routine returns and the callback returns \<open>None\<close>.\<close>

definition tenv0 :: thread_env where
  "tenv0 = \<lparr>sched = Returns, build_ok = True, call_ret = Some 0\<rparr>"

text \<open>A live context, as a successful launch leaves it, and a live handle \<open>9\<close> for thread \<open>7\<close>.\<close>

definition ti0 :: ThreadInfo where
  "ti0 = \<lparr>ok_cbak = 2, cancel_cbak = 3, err_cbak = 4, data = 5, routine = 4096\<rparr>"

definition w_live :: world where
  "w_live = \<lparr>heap = [0 \<mapsto> ThreadInfo_blk ti0, 1 \<mapsto> pthread_t_blk 7], next_addr = 2,
             objs = objs0(9 := PyCapsule 1 (Some THREAD_HANDLE_NAME)), next_obj = 10,
             refs = (\<lambda>ob. 0)(2 := 1, 3 := 1, 4 := 1, 5 := 1),
             threads = [(7, 0)], trace = []\<rparr>"

section \<open>Properties\<close>

subsection \<open>What each library call changes\<close>

lemma emit_simps [simp]:
  "trace (emit e w) = trace w @ [e]" "heap (emit e w) = heap w" "refs (emit e w) = refs w"
  "threads (emit e w) = threads w" "objs (emit e w) = objs w"
  "next_obj (emit e w) = next_obj w" "next_addr (emit e w) = next_addr w"
  by (simp_all add: emit_def)

lemma free_simps [simp]:
  "trace (free a w) = trace w @ [E_free a]" "heap (free a w) = (heap w)(a := None)"
  "refs (free a w) = refs w" "threads (free a w) = threads w" "objs (free a w) = objs w"
  "next_obj (free a w) = next_obj w" "next_addr (free a w) = next_addr w"
  by (simp_all add: free_def)

lemma store_simps [simp]:
  "trace (store a b w) = trace w" "heap (store a b w) = (heap w)(a \<mapsto> b)"
  "refs (store a b w) = refs w" "threads (store a b w) = threads w" "objs (store a b w) = objs w"
  "next_obj (store a b w) = next_obj w" "next_addr (store a b w) = next_addr w"
  by (simp_all add: store_def)

lemma Py_INCREF_simps [simp]:
  "trace (Py_INCREF ob w) = trace w @ [E_incref ob]" "heap (Py_INCREF ob w) = heap w"
  "refs (Py_INCREF ob w) = (refs w)(ob := refs w ob + 1)"
  "threads (Py_INCREF ob w) = threads w" "objs (Py_INCREF ob w) = objs w"
  "next_obj (Py_INCREF ob w) = next_obj w" "next_addr (Py_INCREF ob w) = next_addr w"
  by (simp_all add: Py_INCREF_def)

lemma Py_DECREF_simps [simp]:
  "trace (Py_DECREF ob w) = trace w @ [E_decref ob]" "heap (Py_DECREF ob w) = heap w"
  "refs (Py_DECREF ob w) = (refs w)(ob := refs w ob - 1)"
  "threads (Py_DECREF ob w) = threads w" "objs (Py_DECREF ob w) = objs w"
  "next_obj (Py_DECREF ob w) = next_obj w" "next_addr (Py_DECREF ob w) = next_addr w"
  by (simp_all add: Py_DECREF_def)

lemma handler_exec_Some:
  assumes "heap w thr = Some (ThreadInfo_blk ti)"
  shows "\<exists>w'. handler_exec env thr cb w = Some w'"
  using assms by (simp add: handler_exec_def Let_def split: prod.splits)

lemma handler_exec_trace:
  assumes "heap w thr = Some (ThreadInfo_blk ti)" "handler_exec env thr cb w = Some w'"
  shows "trace w' = trace w @
       [E_gil_ensure, E_build_value (data ti) (if build_ok env then Some (next_obj w) else None)]
       @ (if build_ok env
          then E_call cb [data ti] # E_decref (next_obj w)
               # (case call_ret env of Some r \<Rightarrow> [E_decref r] | None \<Rightarrow> [])
          else [])
       @ [E_decref (ok_cbak ti), E_decref (cancel_cbak ti), E_decref (err_cbak ti),
          E_decref (data ti), E_gil_release, E_free thr]"
  using assms
  by (cases "build_ok env"; cases "call_ret env")
     (auto simp add: handler_exec_def Py_BuildValue_O_def PyObject_CallObject_def Let_def)

lemma handler_exec_heap:
  assumes "heap w thr = Some (ThreadInfo_blk ti)" "handler_exec env thr cb w = Some w'"
  shows "heap w' = (heap w)(thr := None) \<and> threads w' = threads w"
  using assms
  by (cases "build_ok env"; cases "call_ret env")
     (auto simp add: handler_exec_def Py_BuildValue_O_def PyObject_CallObject_def Let_def)

lemma handler_exec_refs:
  assumes "heap w thr = Some (ThreadInfo_blk ti)" "handler_exec env thr cb w = Some w'"
  shows "refs w' x = refs w x
        - int (count_list [ok_cbak ti, cancel_cbak ti, err_cbak ti, data ti] x)"
  using assms
  by (cases "build_ok env"; cases "call_ret env")
     (auto simp add: handler_exec_def Py_BuildValue_O_def PyObject_CallObject_def Let_def)



lemma parse_objs:
  "objs w1 = objs w \<Longrightarrow> PyArg_ParseTuple_LOOOO w1 args = PyArg_ParseTuple_LOOOO w args"
  unfolding PyArg_ParseTuple_LOOOO_def PyLong_AsLongLong_def PyNumber_Index_def
  by (simp cong: list.case_cong)

lemma callable_objs:
  "objs w1 = objs w \<Longrightarrow> PyCallable_Check w1 ob = PyCallable_Check w ob"
  by (simp add: PyCallable_Check_def)

lemma malloc_Some:
  "malloc (Some b) w = (Some (next_addr w),
      emit (E_malloc (next_addr w))
        (w\<lparr>heap := (heap w)(next_addr w \<mapsto> b), next_addr := Suc (next_addr w)\<rparr>))"
  by (simp add: malloc_def)

lemma malloc_None: "malloc None w = (None, w)"
  by (simp add: malloc_def)

subsection \<open>The paths through \<open>do_interruptably\<close>\<close>

lemma launch_no_memory:
  assumes "malloc_info env = None"
  shows "do_interruptably env args w = (Inl PyErr_NoMemory, w)"
  unfolding do_interruptably_def using assms by (simp add: malloc_None)

lemma launch_parse_error:
  assumes "malloc_info env = Some junk" "PyArg_ParseTuple_LOOOO w args = Inl e"
  shows "\<exists>w'. do_interruptably env args w = (Inl e, w') \<and>
           trace w' = trace w @ [E_malloc (next_addr w), E_free (next_addr w)] \<and>
           heap w' = (heap w)(next_addr w := None) \<and> refs w' = refs w \<and>
           threads w' = threads w \<and> objs w' = objs w \<and>
           next_addr w' = Suc (next_addr w)"
proof -
  define w1 where "w1 = emit (E_malloc (next_addr w))
        (w\<lparr>heap := (heap w)(next_addr w \<mapsto> ThreadInfo_blk junk), next_addr := Suc (next_addr w)\<rparr>)"
  have m: "malloc (map_option ThreadInfo_blk (malloc_info env)) w = (Some (next_addr w), w1)"
    using assms(1) by (simp add: malloc_Some w1_def)
  have o1: "objs w1 = objs w"
    by (simp add: w1_def)
  have p: "PyArg_ParseTuple_LOOOO w1 args = Inl e"
    using assms(2) parse_objs [OF o1] by simp
  have "do_interruptably env args w = (Inl e, free (next_addr w) w1)"
    unfolding do_interruptably_def m by (simp add: p)
  then show ?thesis
    by (simp add: w1_def)
qed

lemma launch_not_callable:
  assumes "malloc_info env = Some junk"
      and "PyArg_ParseTuple_LOOOO w args = Inr (fn, ok, cancel, err, d)"
      and "\<not> (PyCallable_Check w ok \<and> PyCallable_Check w cancel \<and> PyCallable_Check w err)"
  shows "\<exists>w'. do_interruptably env args w =
             (Inl (TypeError, ''arguments 2, 3, and 4 must be callable''), w') \<and>
           trace w' = trace w @ [E_malloc (next_addr w), E_free (next_addr w)] \<and>
           heap w' = (heap w)(next_addr w := None) \<and> refs w' = refs w \<and>
           threads w' = threads w \<and> objs w' = objs w \<and>
           next_addr w' = Suc (next_addr w)"
proof -
  define w1 where "w1 = emit (E_malloc (next_addr w))
        (w\<lparr>heap := (heap w)(next_addr w \<mapsto> ThreadInfo_blk junk), next_addr := Suc (next_addr w)\<rparr>)"
  define w2 where "w2 = set_fields (next_addr w)
      (\<lambda>ti. ti\<lparr>ok_cbak := ok, cancel_cbak := cancel, err_cbak := err, data := d\<rparr>) w1"
  have m: "malloc (map_option ThreadInfo_blk (malloc_info env)) w = (Some (next_addr w), w1)"
    using assms(1) by (simp add: malloc_Some w1_def)
  have o1: "objs w1 = objs w"
    by (simp add: w1_def)
  have p: "PyArg_ParseTuple_LOOOO w1 args = Inr (fn, ok, cancel, err, d)"
    using assms(2) parse_objs [OF o1] by simp
  have o2: "objs w2 = objs w"
    by (simp add: w2_def w1_def set_fields_def)
  have c: "\<not> (PyCallable_Check w2 ok \<and> PyCallable_Check w2 cancel \<and> PyCallable_Check w2 err)"
    using assms(3) callable_objs [OF o2] by simp
  have "do_interruptably env args w =
      (Inl (TypeError, ''arguments 2, 3, and 4 must be callable''), free (next_addr w) w2)"
    unfolding do_interruptably_def m using c by (simp add: p w2_def [symmetric])
  then show ?thesis
    by (simp add: w1_def w2_def set_fields_def)
qed


lemma launch_valid:
  assumes "malloc_info env = Some junk"
      and "PyArg_ParseTuple_LOOOO w args = Inr (fn, ok, cancel, err, d)"
      and "PyCallable_Check w ok" "PyCallable_Check w cancel" "PyCallable_Check w err"
  shows "\<exists>w7.
     trace w7 = trace w @ [E_malloc (next_addr w), E_incref ok, E_incref cancel,
                           E_incref err, E_incref d] \<and>
     heap w7 = (heap w)(next_addr w \<mapsto> ThreadInfo_blk
        \<lparr>ok_cbak = ok, cancel_cbak = cancel, err_cbak = err, data = d, routine = fn\<rparr>) \<and>
     (\<forall>x. refs w7 x = refs w x + int (count_list [ok, cancel, err, d] x)) \<and>
     threads w7 = threads w \<and> objs w7 = objs w \<and> next_obj w7 = next_obj w \<and>
     next_addr w7 = Suc (next_addr w) \<and>
     do_interruptably env args w =
       (let failed = attr_init_ret env;
            failed = (if failed \<noteq> 0 then failed else setdetachstate_ret env);
            (failed, w8) =
              (if failed \<noteq> 0 then (failed, w7)
               else pthread_create (create_ret env) (create_tid env) (next_addr w) w7)
        in if failed \<noteq> 0
           then (Inl (start_error failed), free (next_addr w) w8)
           else make_thread_handle env (create_tid env) w8)"
proof -
  define w1 where "w1 = emit (E_malloc (next_addr w))
        (w\<lparr>heap := (heap w)(next_addr w \<mapsto> ThreadInfo_blk junk), next_addr := Suc (next_addr w)\<rparr>)"
  define w2 where "w2 = set_fields (next_addr w)
      (\<lambda>ti. ti\<lparr>ok_cbak := ok, cancel_cbak := cancel, err_cbak := err, data := d\<rparr>) w1"
  define w7 where "w7 = set_fields (next_addr w) (\<lambda>ti. ti\<lparr>routine := fn\<rparr>)
      (Py_INCREF d (Py_INCREF err (Py_INCREF cancel (Py_INCREF ok w2))))"
  have m: "malloc (map_option ThreadInfo_blk (malloc_info env)) w = (Some (next_addr w), w1)"
    using assms(1) by (simp add: malloc_Some w1_def)
  have o1: "objs w1 = objs w"
    by (simp add: w1_def)
  have p: "PyArg_ParseTuple_LOOOO w1 args = Inr (fn, ok, cancel, err, d)"
    using assms(2) parse_objs [OF o1] by simp
  have o2: "objs w2 = objs w"
    by (simp add: w2_def w1_def set_fields_def)
  have c: "PyCallable_Check w2 ok \<and> PyCallable_Check w2 cancel \<and> PyCallable_Check w2 err"
    using assms(3-5) callable_objs [OF o2] by simp
  have run: "do_interruptably env args w =
       (let failed = attr_init_ret env;
            failed = (if failed \<noteq> 0 then failed else setdetachstate_ret env);
            (failed, w8) =
              (if failed \<noteq> 0 then (failed, w7)
               else pthread_create (create_ret env) (create_tid env) (next_addr w) w7)
        in if failed \<noteq> 0
           then (Inl (start_error failed), free (next_addr w) w8)
           else make_thread_handle env (create_tid env) w8)"
    unfolding do_interruptably_def m using c
    by (simp add: p w2_def [symmetric] w7_def [symmetric] Let_def)
  have h2: "heap w2 = (heap w)(next_addr w \<mapsto> ThreadInfo_blk
      (junk\<lparr>ok_cbak := ok, cancel_cbak := cancel, err_cbak := err, data := d\<rparr>))"
    by (simp add: w2_def w1_def set_fields_def)
  have h7: "heap w7 = (heap w)(next_addr w \<mapsto> ThreadInfo_blk
        \<lparr>ok_cbak = ok, cancel_cbak = cancel, err_cbak = err, data = d, routine = fn\<rparr>)"
    by (cases junk) (simp add: w7_def set_fields_def h2)
  have t7: "trace w7 = trace w @ [E_malloc (next_addr w), E_incref ok, E_incref cancel,
                           E_incref err, E_incref d]"
    by (simp add: w7_def set_fields_def h2) (simp add: w2_def set_fields_def w1_def)
  have r2: "refs w2 = refs w" "threads w2 = threads w" "next_obj w2 = next_obj w"
       "next_addr w2 = Suc (next_addr w)"
    by (simp_all add: w2_def w1_def set_fields_def)
  have r7: "\<forall>x. refs w7 x = refs w x + int (count_list [ok, cancel, err, d] x)"
    by (simp add: w7_def set_fields_def h2 r2)
  have o7: "threads w7 = threads w" "objs w7 = objs w" "next_obj w7 = next_obj w"
        "next_addr w7 = Suc (next_addr w)"
    by (simp_all add: w7_def set_fields_def h2 r2 o2)
  show ?thesis
    using run h7 t7 r7 o7 by blast
qed


lemma launch_create_failed:
  assumes "malloc_info env = Some junk"
      and "PyArg_ParseTuple_LOOOO w args = Inr (fn, ok, cancel, err, d)"
      and "PyCallable_Check w ok" "PyCallable_Check w cancel" "PyCallable_Check w err"
      and "attr_init_ret env \<noteq> 0 \<or> setdetachstate_ret env \<noteq> 0 \<or> create_ret env \<noteq> 0"
  shows "\<exists>w'. do_interruptably env args w =
       (Inl (start_error (if attr_init_ret env \<noteq> 0 then attr_init_ret env
                          else if setdetachstate_ret env \<noteq> 0 then setdetachstate_ret env
                          else create_ret env)), w') \<and>
     heap w' = (heap w)(next_addr w := None) \<and>
     (\<forall>x. refs w' x = refs w x + int (count_list [ok, cancel, err, d] x)) \<and>
     threads w' = threads w \<and> objs w' = objs w \<and>
     next_addr w' = Suc (next_addr w) \<and>
     trace w' = trace w @ [E_malloc (next_addr w), E_incref ok, E_incref cancel,
                           E_incref err, E_incref d]
        @ (if attr_init_ret env = 0 \<and> setdetachstate_ret env = 0
           then [E_pthread_create (next_addr w) (create_ret env)] else [])
        @ [E_free (next_addr w)]"
proof -
  obtain w7 where w7:
     "trace w7 = trace w @ [E_malloc (next_addr w), E_incref ok, E_incref cancel,
                           E_incref err, E_incref d]"
     "heap w7 = (heap w)(next_addr w \<mapsto> ThreadInfo_blk
        \<lparr>ok_cbak = ok, cancel_cbak = cancel, err_cbak = err, data = d, routine = fn\<rparr>)"
     "\<forall>x. refs w7 x = refs w x + int (count_list [ok, cancel, err, d] x)"
     "threads w7 = threads w" "objs w7 = objs w" "next_addr w7 = Suc (next_addr w)"
     and run: "do_interruptably env args w =
       (let failed = attr_init_ret env;
            failed = (if failed \<noteq> 0 then failed else setdetachstate_ret env);
            (failed, w8) =
              (if failed \<noteq> 0 then (failed, w7)
               else pthread_create (create_ret env) (create_tid env) (next_addr w) w7)
        in if failed \<noteq> 0
           then (Inl (start_error failed), free (next_addr w) w8)
           else make_thread_handle env (create_tid env) w8)"
    using launch_valid [OF assms(1-5)] by blast
  define w8 where "w8 = (if attr_init_ret env = 0 \<and> setdetachstate_ret env = 0
       then emit (E_pthread_create (next_addr w) (create_ret env)) w7 else w7)"
  have "do_interruptably env args w =
       (Inl (start_error (if attr_init_ret env \<noteq> 0 then attr_init_ret env
                          else if setdetachstate_ret env \<noteq> 0 then setdetachstate_ret env
                          else create_ret env)), free (next_addr w) w8)"
    unfolding run w8_def using assms(6)
    by (cases "attr_init_ret env = 0"; cases "setdetachstate_ret env = 0")
       (simp_all add: Let_def pthread_create_def)
  moreover have "heap w8 = heap w7" "refs w8 = refs w7" "objs w8 = objs w7"
    "threads w8 = threads w7" "next_addr w8 = next_addr w7"
    "trace w8 = trace w7 @ (if attr_init_ret env = 0 \<and> setdetachstate_ret env = 0
           then [E_pthread_create (next_addr w) (create_ret env)] else [])"
    by (simp_all add: w8_def)
  ultimately show ?thesis
    using w7 by (intro exI [of _ "free (next_addr w) w8"]) simp
qed

lemma launch_started:
  assumes "malloc_info env = Some junk"
      and "PyArg_ParseTuple_LOOOO w args = Inr (fn, ok, cancel, err, d)"
      and "PyCallable_Check w ok" "PyCallable_Check w cancel" "PyCallable_Check w err"
      and "attr_init_ret env = 0" "setdetachstate_ret env = 0" "create_ret env = 0"
  shows "\<exists>w8. do_interruptably env args w = make_thread_handle env (create_tid env) w8 \<and>
     heap w8 = (heap w)(next_addr w \<mapsto> ThreadInfo_blk
        \<lparr>ok_cbak = ok, cancel_cbak = cancel, err_cbak = err, data = d, routine = fn\<rparr>) \<and>
     (\<forall>x. refs w8 x = refs w x + int (count_list [ok, cancel, err, d] x)) \<and>
     threads w8 = threads w @ [(create_tid env, next_addr w)] \<and> objs w8 = objs w \<and>
     next_obj w8 = next_obj w \<and> next_addr w8 = Suc (next_addr w) \<and>
     trace w8 = trace w @ [E_malloc (next_addr w), E_incref ok, E_incref cancel,
                           E_incref err, E_incref d, E_pthread_create (next_addr w) 0]"
proof -
  obtain w7 where w7:
     "trace w7 = trace w @ [E_malloc (next_addr w), E_incref ok, E_incref cancel,
                           E_incref err, E_incref d]"
     "heap w7 = (heap w)(next_addr w \<mapsto> ThreadInfo_blk
        \<lparr>ok_cbak = ok, cancel_cbak = cancel, err_cbak = err, data = d, routine = fn\<rparr>)"
     "\<forall>x. refs w7 x = refs w x + int (count_list [ok, cancel, err, d] x)"
     "threads w7 = threads w" "objs w7 = objs w" "next_obj w7 = next_obj w"
     "next_addr w7 = Suc (next_addr w)"
     and run: "do_interruptably env args w =
       (let failed = attr_init_ret env;
            failed = (if failed \<noteq> 0 then failed else setdetachstate_ret env);
            (failed, w8) =
              (if failed \<noteq> 0 then (failed, w7)
               else pthread_create (create_ret env) (create_tid env) (next_addr w) w7)
        in if failed \<noteq> 0
           then (Inl (start_error failed), free (next_addr w) w8)
           else make_thread_handle env (create_tid env) w8)"
    using launch_valid [OF assms(1-5)] by blast
  define w8 where "w8 = emit (E_pthread_create (next_addr w) 0)
      (w7\<lparr>threads := threads w7 @ [(create_tid env, next_addr w)]\<rparr>)"
  have "do_interruptably env args w = make_thread_handle env (create_tid env) w8"
    unfolding run using assms(6-8) by (simp add: Let_def pthread_create_def w8_def)
  moreover have "heap w8 = heap w7" "refs w8 = refs w7" "objs w8 = objs w7"
    "next_obj w8 = next_obj w7" "next_addr w8 = next_addr w7"
    "threads w8 = threads w7 @ [(create_tid env, next_addr w)]"
    "trace w8 = trace w7 @ [E_pthread_create (next_addr w) 0]"
    by (simp_all add: w8_def)
  ultimately show ?thesis
    using w7 by (intro exI [of _ w8]) simp
qed

lemma make_thread_handle_no_memory:
  "malloc_handle env = None \<Longrightarrow> make_thread_handle env tid w = (Inl PyErr_NoMemory, w)"
  by (simp add: make_thread_handle_def malloc_None)

lemma make_thread_handle_allocated:
  assumes "malloc_handle env = Some j"
  shows "\<exists>w'. make_thread_handle env tid w =
           (if capsule_ok env then Inr (next_obj w) else Inl PyErr_NoMemory, w') \<and>
     heap w' = (heap w)(next_addr w \<mapsto> pthread_t_blk tid) \<and>
     objs w' = (if capsule_ok env
                then (objs w)(next_obj w := PyCapsule (next_addr w) (Some THREAD_HANDLE_NAME))
                else objs w) \<and>
     refs w' = refs w \<and> threads w' = threads w \<and>
     next_addr w' = Suc (next_addr w) \<and>
     trace w' = trace w @ [E_malloc (next_addr w)]"
  using assms
  by (simp add: make_thread_handle_def malloc_Some PyCapsule_New_def)

subsection \<open>The paths through \<open>nativethread_run_thread\<close>\<close>

lemma bridge_after:
  assumes "heap w thr = Some (ThreadInfo_blk ti)"
      and "heap ws = heap w" "threads ws = threads w" "refs ws = refs w"
          "next_obj ws = next_obj w" "trace ws = trace w @ steps"
  shows "\<exists>w'. handler_exec env thr cb ws = Some w' \<and>
     trace w' = trace w @ steps @
       [E_gil_ensure, E_build_value (data ti) (if build_ok env then Some (next_obj w) else None)]
       @ (if build_ok env
          then E_call cb [data ti] # E_decref (next_obj w)
               # (case call_ret env of Some r \<Rightarrow> [E_decref r] | None \<Rightarrow> [])
          else [])
       @ [E_decref (ok_cbak ti), E_decref (cancel_cbak ti), E_decref (err_cbak ti),
          E_decref (data ti), E_gil_release, E_free thr] \<and>
     heap w' = (heap w)(thr := None) \<and> threads w' = threads w \<and>
     (\<forall>x. refs w' x = refs w x
        - int (count_list [ok_cbak ti, cancel_cbak ti, err_cbak ti, data ti] x))"
proof -
  have h: "heap ws thr = Some (ThreadInfo_blk ti)"
    using assms(1,2) by simp
  obtain w' where w': "handler_exec env thr cb ws = Some w'"
    using handler_exec_Some [OF h] by blast
  show ?thesis
    using handler_exec_trace [OF h w'] handler_exec_heap [OF h w']
      handler_exec_refs [OF h w'] w' assms(2-6)
    by (intro exI [of _ w']) simp
qed

lemma run_thread_exits:
  assumes "heap w thr = Some (ThreadInfo_blk ti)" "sched env \<noteq> Never_returns"
  shows "\<exists>w'. nativethread_run_thread env thr w = Some (Exited w') \<and>
     trace w' = trace w @ [E_cleanup_push thr, E_setcancelstate True, E_setcanceltype_async]
       @ (case sched env of
            Returns \<Rightarrow> [E_routine (routine ti), E_routine_returned,
                        E_setcancelstate False, E_cleanup_pop]
          | Cancelled_pending \<Rightarrow> [E_cancelled]
          | Cancelled_in_routine \<Rightarrow> [E_routine (routine ti), E_cancelled]
          | Cancelled_after_routine \<Rightarrow>
              [E_routine (routine ti), E_routine_returned, E_cancelled]
          | Never_returns \<Rightarrow> [])
       @ [E_gil_ensure, E_build_value (data ti) (if build_ok env then Some (next_obj w) else None)]
       @ (if build_ok env
          then E_call (if sched env = Returns then ok_cbak ti else cancel_cbak ti) [data ti]
               # E_decref (next_obj w)
               # (case call_ret env of Some r \<Rightarrow> [E_decref r] | None \<Rightarrow> [])
          else [])
       @ [E_decref (ok_cbak ti), E_decref (cancel_cbak ti), E_decref (err_cbak ti),
          E_decref (data ti), E_gil_release, E_free thr] \<and>
     heap w' = (heap w)(thr := None) \<and> threads w' = threads w \<and>
     (\<forall>x. refs w' x = refs w x
        - int (count_list [ok_cbak ti, cancel_cbak ti, err_cbak ti, data ti] x))"
proof -
  let ?start = "emit E_setcanceltype_async (emit (E_setcancelstate True)
                  (emit (E_cleanup_push thr) w))"
  let ?called = "emit (E_routine (routine ti)) ?start"
  let ?returned = "emit E_routine_returned ?called"
  from assms(2) show ?thesis
  proof (cases "sched env")
    case Returns
    have "nativethread_run_thread env thr w = map_option Exited
        (handler_exec env thr (ok_cbak ti)
           (emit E_cleanup_pop (emit (E_setcancelstate False) ?returned)))"
      using assms(1) Returns by (simp add: nativethread_run_thread_def Let_def)
    with bridge_after [OF assms(1), of "emit E_cleanup_pop (emit (E_setcancelstate False) ?returned)"
        "[E_cleanup_push thr, E_setcancelstate True, E_setcanceltype_async,
          E_routine (routine ti), E_routine_returned, E_setcancelstate False, E_cleanup_pop]"
        env "ok_cbak ti"]
    show ?thesis using Returns by auto
  next
    case Cancelled_pending
    have "nativethread_run_thread env thr w = map_option Exited
        (handler_exec env thr (cancel_cbak ti) (emit E_cancelled ?start))"
      using assms(1) Cancelled_pending
      by (simp add: nativethread_run_thread_def act_on_cancel_def
          nativethread_cancel_handler_def Let_def)
    with bridge_after [OF assms(1), of "emit E_cancelled ?start"
        "[E_cleanup_push thr, E_setcancelstate True, E_setcanceltype_async, E_cancelled]"
        env "cancel_cbak ti"]
    show ?thesis using Cancelled_pending by auto
  next
    case Cancelled_in_routine
    have "nativethread_run_thread env thr w = map_option Exited
        (handler_exec env thr (cancel_cbak ti) (emit E_cancelled ?called))"
      using assms(1) Cancelled_in_routine
      by (simp add: nativethread_run_thread_def act_on_cancel_def
          nativethread_cancel_handler_def Let_def)
    with bridge_after [OF assms(1), of "emit E_cancelled ?called"
        "[E_cleanup_push thr, E_setcancelstate True, E_setcanceltype_async,
          E_routine (routine ti), E_cancelled]"
        env "cancel_cbak ti"]
    show ?thesis using Cancelled_in_routine by auto
  next
    case Cancelled_after_routine
    have "nativethread_run_thread env thr w = map_option Exited
        (handler_exec env thr (cancel_cbak ti) (emit E_cancelled ?returned))"
      using assms(1) Cancelled_after_routine
      by (simp add: nativethread_run_thread_def act_on_cancel_def
          nativethread_cancel_handler_def Let_def)
    with bridge_after [OF assms(1), of "emit E_cancelled ?returned"
        "[E_cleanup_push thr, E_setcancelstate True, E_setcanceltype_async,
          E_routine (routine ti), E_routine_returned, E_cancelled]"
        env "cancel_cbak ti"]
    show ?thesis using Cancelled_after_routine by auto
  qed simp
qed

lemma run_thread_running:
  assumes "heap w thr = Some (ThreadInfo_blk ti)" "sched env = Never_returns"
  shows "\<exists>w'. nativethread_run_thread env thr w = Some (Running w') \<and>
     trace w' = trace w @ [E_cleanup_push thr, E_setcancelstate True, E_setcanceltype_async,
                           E_routine (routine ti)] \<and>
     heap w' = heap w \<and> threads w' = threads w \<and> refs w' = refs w"
  using assms by (simp add: nativethread_run_thread_def Let_def)

subsection \<open>Claims about the callback bridge\<close>

text \<open>
  Claim C9.  If \<open>Py_BuildValue\<close> cannot allocate the one-element argument tuple inside
  \<open>handler_exec\<close>, no callback is invoked: the bridge only takes the lock, releases the
  four retained objects, gives the lock back and frees the \<open>ThreadInfo\<close>.  The same holds
  for the whole run of a thread that ends, by return or by cancellation: its trace has no
  call at all, and the context is freed and the references are released all the same.
\<close>

theorem silent_drop_when_tuple_allocation_fails:
  assumes "heap w thr = Some (ThreadInfo_blk ti)" and "\<not> build_ok env"
  shows "(\<exists>w'. handler_exec env thr cb w = Some w' \<and>
            trace w' = trace w @
              [E_gil_ensure, E_build_value (data ti) None,
               E_decref (ok_cbak ti), E_decref (cancel_cbak ti), E_decref (err_cbak ti),
               E_decref (data ti), E_gil_release, E_free thr] \<and>
            heap w' = (heap w)(thr := None) \<and>
            (\<forall>x. refs w' x = refs w x
               - int (count_list [ok_cbak ti, cancel_cbak ti, err_cbak ti, data ti] x))) \<and>
         (sched env \<noteq> Never_returns \<longrightarrow>
           (\<exists>w'. nativethread_run_thread env thr w = Some (Exited w') \<and>
              filter is_call (new_events w w') = [] \<and>
              heap w' = (heap w)(thr := None) \<and>
              (\<forall>x. refs w' x = refs w x
                 - int (count_list [ok_cbak ti, cancel_cbak ti, err_cbak ti, data ti] x))))"
proof (intro conjI impI)
  show "\<exists>w'. handler_exec env thr cb w = Some w' \<and>
            trace w' = trace w @
              [E_gil_ensure, E_build_value (data ti) None,
               E_decref (ok_cbak ti), E_decref (cancel_cbak ti), E_decref (err_cbak ti),
               E_decref (data ti), E_gil_release, E_free thr] \<and>
            heap w' = (heap w)(thr := None) \<and>
            (\<forall>x. refs w' x = refs w x
               - int (count_list [ok_cbak ti, cancel_cbak ti, err_cbak ti, data ti] x))"
    using bridge_after [OF assms(1), of w "[]" env cb] assms(2) by auto
next
  assume "sched env \<noteq> Never_returns"
  from run_thread_exits [OF assms(1) this]
  obtain w' where w': "nativethread_run_thread env thr w = Some (Exited w')"
    and tr: "trace w' = trace w @ [E_cleanup_push thr, E_setcancelstate True, E_setcanceltype_async]
       @ (case sched env of
            Returns \<Rightarrow> [E_routine (routine ti), E_routine_returned,
                        E_setcancelstate False, E_cleanup_pop]
          | Cancelled_pending \<Rightarrow> [E_cancelled]
          | Cancelled_in_routine \<Rightarrow> [E_routine (routine ti), E_cancelled]
          | Cancelled_after_routine \<Rightarrow>
              [E_routine (routine ti), E_routine_returned, E_cancelled]
          | Never_returns \<Rightarrow> [])
       @ [E_gil_ensure, E_build_value (data ti) None]
       @ [E_decref (ok_cbak ti), E_decref (cancel_cbak ti), E_decref (err_cbak ti),
          E_decref (data ti), E_gil_release, E_free thr]"
    and rest: "heap w' = (heap w)(thr := None)"
      "\<forall>x. refs w' x = refs w x
         - int (count_list [ok_cbak ti, cancel_cbak ti, err_cbak ti, data ti] x)"
    using assms(2) by auto
  have "filter is_call (new_events w w') = []"
    unfolding new_events_def tr by (cases "sched env") simp_all
  with w' rest show "\<exists>w'. nativethread_run_thread env thr w = Some (Exited w') \<and>
              filter is_call (new_events w w') = [] \<and>
              heap w' = (heap w)(thr := None) \<and>
              (\<forall>x. refs w' x = refs w x
                 - int (count_list [ok_cbak ti, cancel_cbak ti, err_cbak ti, data ti] x))"
    by blast
qed

theorem silent_drop_witness:
  "heap w_live 0 = Some (ThreadInfo_blk ti0) \<and>
   \<not> build_ok (tenv0\<lparr>build_ok := False\<rparr>) \<and>
   sched (tenv0\<lparr>build_ok := False\<rparr>) \<noteq> Never_returns \<and>
   (\<exists>w'. handler_exec (tenv0\<lparr>build_ok := False\<rparr>) 0 2 w_live = Some w' \<and>
      trace w' = [E_gil_ensure, E_build_value 5 None, E_decref 2, E_decref 3, E_decref 4,
                  E_decref 5, E_gil_release, E_free 0] \<and>
      heap w' 0 = None \<and> refs w' 2 = 0 \<and> refs w' 3 = 0 \<and> refs w' 4 = 0 \<and> refs w' 5 = 0) \<and>
   (\<exists>w'. nativethread_run_thread (tenv0\<lparr>build_ok := False\<rparr>) 0 w_live = Some (Exited w') \<and>
      filter is_call (new_events w_live w') = [] \<and> heap w' 0 = None)"
proof -
  have h: "heap w_live 0 = Some (ThreadInfo_blk ti0)"
    by (simp add: w_live_def)
  have b: "\<not> build_ok (tenv0\<lparr>build_ok := False\<rparr>)"
    by simp
  have s: "sched (tenv0\<lparr>build_ok := False\<rparr>) \<noteq> Never_returns"
    by (simp add: tenv0_def)
  from silent_drop_when_tuple_allocation_fails [OF h b, of 2] s h
  show ?thesis
    by (auto simp add: ti0_def w_live_def tenv0_def)
qed

lemma start_error_not_cancel_error:
  "start_error failed \<noteq> (SystemError, ''thread could not be cancelled (no such thread)'')"
  by (simp add: start_error_def PyErr_NoMemory_def)

lemma interrupt_frame:
  assumes "interrupt ret args w = Some (r, w')"
  shows "heap w' = heap w \<and> objs w' = objs w \<and> threads w' = threads w \<and>
         next_addr w' = next_addr w \<and>
         filter is_call (new_events w w') = []"
  using assms
  by (auto simp add: interrupt_def pthread_cancel_def new_events_def
      split: sum.splits if_splits option.splits block.splits)

subsection \<open>Claims about \<open>interrupt\<close>\<close>

text \<open>
  Claim C7.  For a handle that carries the module's tag and holds a thread identifier,
  \<open>interrupt\<close> makes the one call of \<open>pthread_cancel\<close>.  When the system rejects the
  identifier (a nonzero result), the call raises \<open>SystemError\<close> with the text "thread
  could not be cancelled (no such thread)": not a \<open>TypeError\<close>, and none of the errors
  \<open>do_interruptably\<close> raises when a thread cannot be started.  Whether the call succeeds
  or fails, the C heap (every \<open>ThreadInfo\<close> and the handle's own record), the objects
  and the threads are as before.
\<close>

theorem interrupt_rejected_by_os:
  assumes "objs w handle = PyCapsule p (Some THREAD_HANDLE_NAME)"
      and "heap w p = Some (pthread_t_blk tid)"
  shows "\<exists>r w'. interrupt ret [handle] w = Some (r, w') \<and>
           r = (if ret \<noteq> 0
                then Inl (SystemError, ''thread could not be cancelled (no such thread)'')
                else Inr Py_None) \<and>
           (\<forall>msg. r \<noteq> Inl (TypeError, msg)) \<and>
           (\<forall>failed. r \<noteq> Inl (start_error failed)) \<and>
           trace w' = trace w @ [E_pthread_cancel tid ret]
              @ (if ret \<noteq> 0 then [] else [E_incref Py_None]) \<and>
           heap w' = heap w \<and> objs w' = objs w \<and> threads w' = threads w"
  using assms start_error_not_cancel_error [THEN not_sym]
  by (simp add: interrupt_def PyArg_ParseTuple_O_def PyCapsule_CheckExact_def
      PyCapsule_GetPointer_def pthread_cancel_def)

theorem interrupt_rejected_by_os_witness:
  "objs w_live 9 = PyCapsule 1 (Some THREAD_HANDLE_NAME) \<and>
   heap w_live 1 = Some (pthread_t_blk 7) \<and>
   (\<exists>w'. interrupt 3 [9] w_live =
       Some (Inl (SystemError, ''thread could not be cancelled (no such thread)''), w') \<and>
      trace w' = [E_pthread_cancel 7 3] \<and> heap w' = heap w_live \<and> objs w' = objs w_live) \<and>
   (\<exists>w'. interrupt 0 [9] w_live = Some (Inr Py_None, w') \<and>
      trace w' = [E_pthread_cancel 7 0, E_incref Py_None] \<and> heap w' = heap w_live)"
proof -
  have o: "objs w_live 9 = PyCapsule 1 (Some THREAD_HANDLE_NAME)"
    by (simp add: w_live_def)
  have h: "heap w_live 1 = Some (pthread_t_blk 7)"
    by (simp add: w_live_def)
  have t: "trace w_live = []"
    by (simp add: w_live_def)
  from interrupt_rejected_by_os [OF o h, of 3] interrupt_rejected_by_os [OF o h, of 0] o h t
  show ?thesis
    by auto
qed

text \<open>
  Claim C3, as the code has it.  A value that is not a capsule named
  \<open>nativethread.thread_handle\<close> is rejected before any call of \<open>pthread_cancel\<close>: the
  process state is returned as it was.  The error is \<open>TypeError\<close> for a value that is no
  capsule (a raw integer, any other object), and the \<open>ValueError\<close> of
  \<open>PyCapsule_GetPointer\<close>, passed on by \<open>if (!thr_handle) return NULL\<close>, for a capsule
  with another name.
\<close>

theorem interrupt_rejects_untagged:
  assumes "\<forall>p. objs w handle \<noteq> PyCapsule p (Some THREAD_HANDLE_NAME)"
  shows "\<exists>e. interrupt ret [handle] w = Some (Inl e, w) \<and>
           fst e = (case objs w handle of PyCapsule p n \<Rightarrow> ValueError | _ \<Rightarrow> TypeError) \<and>
           (\<forall>tid r. E_pthread_cancel tid r \<notin> set (new_events w w))"
  using assms
  by (auto simp add: interrupt_def PyArg_ParseTuple_O_def PyCapsule_CheckExact_def
      PyCapsule_GetPointer_def new_events_def split: pyobject.splits)

text \<open>
  The claim as stated, \<open>TypeError\<close> for a capsule with a mismatched name, fails: the
  capsule \<open>7\<close> of another module gets \<open>ValueError\<close>.
\<close>

theorem interrupt_wrong_name_counterexample:
  "interrupt 0 [7] w0 =
     Some (Inl (ValueError, ''PyCapsule_GetPointer called with incorrect name''), w0)"
  by (simp add: interrupt_def PyArg_ParseTuple_O_def PyCapsule_CheckExact_def
      PyCapsule_GetPointer_def w0_def objs0_def THREAD_HANDLE_NAME_def)

theorem interrupt_rejects_untagged_witness:
  "(\<forall>p. objs w0 1 \<noteq> PyCapsule p (Some THREAD_HANDLE_NAME)) \<and>
   (\<forall>p. objs w0 7 \<noteq> PyCapsule p (Some THREAD_HANDLE_NAME)) \<and>
   (\<exists>m. interrupt 0 [1] w0 = Some (Inl (TypeError, m), w0)) \<and>
   (\<exists>m. interrupt 0 [7] w0 = Some (Inl (ValueError, m), w0))"
proof -
  have a: "\<forall>p. objs w0 1 \<noteq> PyCapsule p (Some THREAD_HANDLE_NAME)"
    by (simp add: w0_def objs0_def)
  have b: "\<forall>p. objs w0 7 \<noteq> PyCapsule p (Some THREAD_HANDLE_NAME)"
    by (simp add: w0_def objs0_def THREAD_HANDLE_NAME_def)
  have c: "objs w0 1 = PyLong 4096 False" "objs w0 7 = PyCapsule 0 (Some ''other.handle'')"
    by (simp_all add: w0_def objs0_def)
  obtain e1 where e1: "interrupt 0 [1] w0 = Some (Inl e1, w0)" "fst e1 = TypeError"
    using interrupt_rejects_untagged [OF a, of 0] c by auto
  obtain e2 where e2: "interrupt 0 [7] w0 = Some (Inl e2, w0)" "fst e2 = ValueError"
    using interrupt_rejects_untagged [OF b, of 0] c by auto
  from e1 have "\<exists>m. interrupt 0 [1] w0 = Some (Inl (TypeError, m), w0)"
    by (cases e1) auto
  moreover from e2 have "\<exists>m. interrupt 0 [7] w0 = Some (Inl (ValueError, m), w0)"
    by (cases e2) auto
  ultimately show ?thesis
    using a b by blast
qed

subsection \<open>Claims about the spawned thread\<close>

text \<open>
  Claim C4.  The events of \<open>nativethread_run_thread\<close>, in order.  A run that is not
  cancelled pushes the cleanup handler for its context, enables cancellation, makes it
  asynchronous, calls the routine, and after the routine has returned disables
  cancellation and pops the handler without running it; only then comes the bridge, with
  \<open>ok_cbak\<close>.  A run that is cancelled (while the asynchronous type is being selected,
  inside the routine, or after the routine and before the disabling) has the steps up to
  that point, then the cancellation, then the bridge with \<open>cancel_cbak\<close>, run by the
  cleanup handler: none of the later steps happens.  A routine that never returns and is
  never cancelled leaves the thread inside the routine.
\<close>

theorem thread_runner_order:
  assumes "heap w thr = Some (ThreadInfo_blk ti)"
  shows "\<exists>r. nativethread_run_thread env thr w = Some r \<and>
     new_events w (world_of r) =
       [E_cleanup_push thr, E_setcancelstate True, E_setcanceltype_async]
       @ (case sched env of
            Returns \<Rightarrow> [E_routine (routine ti), E_routine_returned,
                        E_setcancelstate False, E_cleanup_pop]
          | Cancelled_pending \<Rightarrow> [E_cancelled]
          | Cancelled_in_routine \<Rightarrow> [E_routine (routine ti), E_cancelled]
          | Cancelled_after_routine \<Rightarrow>
              [E_routine (routine ti), E_routine_returned, E_cancelled]
          | Never_returns \<Rightarrow> [E_routine (routine ti)])
       @ (if sched env = Never_returns then []
          else [E_gil_ensure,
                E_build_value (data ti) (if build_ok env then Some (next_obj w) else None)]
               @ (if build_ok env
                  then E_call (if sched env = Returns then ok_cbak ti else cancel_cbak ti)
                         [data ti]
                       # E_decref (next_obj w)
                       # (case call_ret env of Some x \<Rightarrow> [E_decref x] | None \<Rightarrow> [])
                  else [])
               @ [E_decref (ok_cbak ti), E_decref (cancel_cbak ti), E_decref (err_cbak ti),
                  E_decref (data ti), E_gil_release, E_free thr]) \<and>
     has_exited r = (sched env \<noteq> Never_returns) \<and>
     (sched env = Returns \<or> sched env = Never_returns \<or>
        nativethread_run_thread env thr w
          = map_option Exited (nativethread_cancel_handler env thr
              (emit E_cancelled
                 (w\<lparr>trace := trace w
                     @ [E_cleanup_push thr, E_setcancelstate True, E_setcanceltype_async]
                     @ (case sched env of
                          Cancelled_pending \<Rightarrow> []
                        | Cancelled_in_routine \<Rightarrow> [E_routine (routine ti)]
                        | _ \<Rightarrow> [E_routine (routine ti), E_routine_returned])\<rparr>))))"
proof (cases "sched env = Never_returns")
  case True
  with run_thread_running [OF assms True] show ?thesis
    by (auto simp add: new_events_def)
next
  case False
  from run_thread_exits [OF assms False]
  obtain w' where w': "nativethread_run_thread env thr w = Some (Exited w')"
    "new_events w w' = [E_cleanup_push thr, E_setcancelstate True, E_setcanceltype_async]
       @ (case sched env of
            Returns \<Rightarrow> [E_routine (routine ti), E_routine_returned,
                        E_setcancelstate False, E_cleanup_pop]
          | Cancelled_pending \<Rightarrow> [E_cancelled]
          | Cancelled_in_routine \<Rightarrow> [E_routine (routine ti), E_cancelled]
          | Cancelled_after_routine \<Rightarrow>
              [E_routine (routine ti), E_routine_returned, E_cancelled]
          | Never_returns \<Rightarrow> [])
       @ [E_gil_ensure, E_build_value (data ti) (if build_ok env then Some (next_obj w) else None)]
       @ (if build_ok env
          then E_call (if sched env = Returns then ok_cbak ti else cancel_cbak ti) [data ti]
               # E_decref (next_obj w)
               # (case call_ret env of Some r \<Rightarrow> [E_decref r] | None \<Rightarrow> [])
          else [])
       @ [E_decref (ok_cbak ti), E_decref (cancel_cbak ti), E_decref (err_cbak ti),
          E_decref (data ti), E_gil_release, E_free thr]"
    by (auto simp add: new_events_def)
  have "sched env = Returns \<or>
        nativethread_run_thread env thr w
          = map_option Exited (nativethread_cancel_handler env thr
              (emit E_cancelled
                 (w\<lparr>trace := trace w
                     @ [E_cleanup_push thr, E_setcancelstate True, E_setcanceltype_async]
                     @ (case sched env of
                          Cancelled_pending \<Rightarrow> []
                        | Cancelled_in_routine \<Rightarrow> [E_routine (routine ti)]
                        | _ \<Rightarrow> [E_routine (routine ti), E_routine_returned])\<rparr>)))"
    using assms False
    by (cases "sched env")
       (simp_all add: nativethread_run_thread_def act_on_cancel_def Let_def emit_def)
  with w' False show ?thesis
    by (intro exI [of _ "Exited w'"]) (cases "sched env"; simp)
qed

theorem thread_runner_order_witness:
  "heap w_live 0 = Some (ThreadInfo_blk ti0) \<and>
   (\<exists>w'. nativethread_run_thread tenv0 0 w_live = Some (Exited w') \<and>
      new_events w_live w' =
        [E_cleanup_push 0, E_setcancelstate True, E_setcanceltype_async, E_routine 4096,
         E_routine_returned, E_setcancelstate False, E_cleanup_pop,
         E_gil_ensure, E_build_value 5 (Some 10), E_call 2 [5], E_decref 10, E_decref 0,
         E_decref 2, E_decref 3, E_decref 4, E_decref 5, E_gil_release, E_free 0]) \<and>
   (\<exists>w'. nativethread_run_thread (tenv0\<lparr>sched := Cancelled_in_routine\<rparr>) 0 w_live
           = Some (Exited w') \<and>
      new_events w_live w' =
        [E_cleanup_push 0, E_setcancelstate True, E_setcanceltype_async, E_routine 4096,
         E_cancelled,
         E_gil_ensure, E_build_value 5 (Some 10), E_call 3 [5], E_decref 10, E_decref 0,
         E_decref 2, E_decref 3, E_decref 4, E_decref 5, E_gil_release, E_free 0])"
proof -
  have h: "heap w_live 0 = Some (ThreadInfo_blk ti0)"
    by (simp add: w_live_def)
  have n: "next_obj w_live = 10"
    by (simp add: w_live_def)
  obtain r1 where r1: "nativethread_run_thread tenv0 0 w_live = Some r1"
     "new_events w_live (world_of r1) =
        [E_cleanup_push 0, E_setcancelstate True, E_setcanceltype_async, E_routine 4096,
         E_routine_returned, E_setcancelstate False, E_cleanup_pop,
         E_gil_ensure, E_build_value 5 (Some 10), E_call 2 [5], E_decref 10, E_decref 0,
         E_decref 2, E_decref 3, E_decref 4, E_decref 5, E_gil_release, E_free 0]"
     "has_exited r1"
    using thread_runner_order [OF h, of tenv0] n by (auto simp add: tenv0_def ti0_def)
  obtain r2 where r2:
     "nativethread_run_thread (tenv0\<lparr>sched := Cancelled_in_routine\<rparr>) 0 w_live = Some r2"
     "new_events w_live (world_of r2) =
        [E_cleanup_push 0, E_setcancelstate True, E_setcanceltype_async, E_routine 4096,
         E_cancelled,
         E_gil_ensure, E_build_value 5 (Some 10), E_call 3 [5], E_decref 10, E_decref 0,
         E_decref 2, E_decref 3, E_decref 4, E_decref 5, E_gil_release, E_free 0]"
     "has_exited r2"
    using thread_runner_order [OF h, of "tenv0\<lparr>sched := Cancelled_in_routine\<rparr>"] n
    by (auto simp add: tenv0_def ti0_def)
  from r1 have "r1 = Exited (world_of r1)" by (cases r1) auto
  moreover from r2 have "r2 = Exited (world_of r2)" by (cases r2) auto
  ultimately show ?thesis
    using h r1(1,2) r2(1,2) by metis
qed

subsection \<open>Successful launches, and what no launch touches\<close>

lemma parse_five:
  "PyArg_ParseTuple_LOOOO w [a0, a1, a2, a3, a4] =
     (case PyLong_AsLongLong w a0 of Inl e \<Rightarrow> Inl e | Inr v \<Rightarrow> Inr (v, a1, a2, a3, a4))"
  by (simp add: PyArg_ParseTuple_LOOOO_def)

lemma launch_success_inv:
  assumes "do_interruptably env [a0, ok, cancel, err, d] w = (Inr h, w1)"
  shows "\<exists>junk fn j. malloc_info env = Some junk \<and>
           PyArg_ParseTuple_LOOOO w [a0, ok, cancel, err, d] = Inr (fn, ok, cancel, err, d) \<and>
           PyCallable_Check w ok \<and> PyCallable_Check w cancel \<and> PyCallable_Check w err \<and>
           attr_init_ret env = 0 \<and> setdetachstate_ret env = 0 \<and> create_ret env = 0 \<and>
           malloc_handle env = Some j \<and> capsule_ok env"
proof -
  let ?args = "[a0, ok, cancel, err, d]"
  obtain junk where junk: "malloc_info env = Some junk"
    using assms launch_no_memory [of env ?args w] by (cases "malloc_info env") auto
  obtain fn where fn: "PyArg_ParseTuple_LOOOO w ?args = Inr (fn, ok, cancel, err, d)"
  proof (cases "PyLong_AsLongLong w a0")
    case (Inl e)
    then have "PyArg_ParseTuple_LOOOO w ?args = Inl e"
      by (simp add: parse_five)
    from launch_parse_error [OF junk this] assms show ?thesis by auto
  next
    case (Inr v)
    then have "PyArg_ParseTuple_LOOOO w ?args = Inr (v, ok, cancel, err, d)"
      by (simp add: parse_five)
    then show ?thesis by (rule that)
  qed
  have c: "PyCallable_Check w ok \<and> PyCallable_Check w cancel \<and> PyCallable_Check w err"
    using launch_not_callable [OF junk fn] assms by auto
  have z: "attr_init_ret env = 0 \<and> setdetachstate_ret env = 0 \<and> create_ret env = 0"
    using launch_create_failed [OF junk fn] c assms by auto
  obtain w8 where w8: "do_interruptably env ?args w = make_thread_handle env (create_tid env) w8"
    using launch_started [OF junk fn] c z by blast
  obtain j where j: "malloc_handle env = Some j"
    using assms w8 make_thread_handle_no_memory [of env "create_tid env" w8]
    by (cases "malloc_handle env") auto
  have "capsule_ok env"
    using make_thread_handle_allocated [OF j, of "create_tid env" w8] assms w8
    by (cases "capsule_ok env") auto
  with junk fn c z j show ?thesis by blast
qed

lemma launch_success:
  assumes "do_interruptably env [a0, ok, cancel, err, d] w = (Inr h, w1)"
  shows "\<exists>fn. PyArg_ParseTuple_LOOOO w [a0, ok, cancel, err, d] = Inr (fn, ok, cancel, err, d) \<and>
     heap w1 = (heap w)(next_addr w \<mapsto> ThreadInfo_blk
        \<lparr>ok_cbak = ok, cancel_cbak = cancel, err_cbak = err, data = d, routine = fn\<rparr>,
        Suc (next_addr w) \<mapsto> pthread_t_blk (create_tid env)) \<and>
     (\<forall>x. refs w1 x = refs w x + int (count_list [ok, cancel, err, d] x)) \<and>
     threads w1 = threads w @ [(create_tid env, next_addr w)] \<and>
     h = next_obj w \<and>
     objs w1 = (objs w)(next_obj w := PyCapsule (Suc (next_addr w)) (Some THREAD_HANDLE_NAME)) \<and>
     trace w1 = trace w @ [E_malloc (next_addr w), E_incref ok, E_incref cancel,
          E_incref err, E_incref d, E_pthread_create (next_addr w) 0,
          E_malloc (Suc (next_addr w))]"
proof -
  let ?args = "[a0, ok, cancel, err, d]"
  from launch_success_inv [OF assms]
  obtain junk fn j where inv: "malloc_info env = Some junk"
     "PyArg_ParseTuple_LOOOO w ?args = Inr (fn, ok, cancel, err, d)"
     "PyCallable_Check w ok" "PyCallable_Check w cancel" "PyCallable_Check w err"
     "attr_init_ret env = 0" "setdetachstate_ret env = 0" "create_ret env = 0"
     "malloc_handle env = Some j" "capsule_ok env"
    by blast
  from launch_started [OF inv(1-8)]
  obtain w8 where w8: "do_interruptably env ?args w = make_thread_handle env (create_tid env) w8"
     "heap w8 = (heap w)(next_addr w \<mapsto> ThreadInfo_blk
        \<lparr>ok_cbak = ok, cancel_cbak = cancel, err_cbak = err, data = d, routine = fn\<rparr>)"
     "\<forall>x. refs w8 x = refs w x + int (count_list [ok, cancel, err, d] x)"
     "threads w8 = threads w @ [(create_tid env, next_addr w)]" "objs w8 = objs w"
     "next_obj w8 = next_obj w" "next_addr w8 = Suc (next_addr w)"
     "trace w8 = trace w @ [E_malloc (next_addr w), E_incref ok, E_incref cancel,
                           E_incref err, E_incref d, E_pthread_create (next_addr w) 0]"
    by blast
  from make_thread_handle_allocated [OF inv(9), of "create_tid env" w8] inv(10)
  obtain w' where w': "make_thread_handle env (create_tid env) w8 = (Inr (next_obj w8), w')"
     "heap w' = (heap w8)(next_addr w8 \<mapsto> pthread_t_blk (create_tid env))"
     "objs w' = (objs w8)(next_obj w8 := PyCapsule (next_addr w8) (Some THREAD_HANDLE_NAME))"
     "refs w' = refs w8" "threads w' = threads w8"
     "trace w' = trace w8 @ [E_malloc (next_addr w8)]"
    by auto
  have "w' = w1" "h = next_obj w8"
    using assms w8(1) w'(1) by simp_all
  with w8 w' inv(2) show ?thesis
    by (intro exI [of _ fn]) simp
qed


lemma launch_frame:
  assumes "thr \<noteq> next_addr w" "thr \<noteq> Suc (next_addr w)"
  shows "heap (snd (do_interruptably env args w)) thr = heap w thr \<and>
         filter is_call (new_events w (snd (do_interruptably env args w))) = []"
proof (cases "malloc_info env")
  case None
  then show ?thesis
    by (simp add: launch_no_memory new_events_def)
next
  case (Some junk)
  show ?thesis
  proof (cases "PyArg_ParseTuple_LOOOO w args")
    case (Inl e)
    from launch_parse_error [OF Some Inl] assms show ?thesis
      by (auto simp add: new_events_def)
  next
    case (Inr parsed)
    then obtain fn ok cancel err d
      where p: "PyArg_ParseTuple_LOOOO w args = Inr (fn, ok, cancel, err, d)"
      by (cases parsed) auto
    show ?thesis
    proof (cases "PyCallable_Check w ok \<and> PyCallable_Check w cancel \<and> PyCallable_Check w err")
      case False
      from launch_not_callable [OF Some p False] assms show ?thesis
        by (auto simp add: new_events_def)
    next
      case True
      show ?thesis
      proof (cases "attr_init_ret env = 0 \<and> setdetachstate_ret env = 0 \<and> create_ret env = 0")
        case False
        then have "attr_init_ret env \<noteq> 0 \<or> setdetachstate_ret env \<noteq> 0 \<or> create_ret env \<noteq> 0"
          by blast
        from launch_create_failed [OF Some p _ _ _ this] True assms show ?thesis
          by (auto simp add: new_events_def)
      next
        case zero: True
        from launch_started [OF Some p] True zero
        obtain w8 where w8:
          "do_interruptably env args w = make_thread_handle env (create_tid env) w8"
          "heap w8 = (heap w)(next_addr w \<mapsto> ThreadInfo_blk
             \<lparr>ok_cbak = ok, cancel_cbak = cancel, err_cbak = err, data = d, routine = fn\<rparr>)"
          "next_addr w8 = Suc (next_addr w)"
          "trace w8 = trace w @ [E_malloc (next_addr w), E_incref ok, E_incref cancel,
                           E_incref err, E_incref d, E_pthread_create (next_addr w) 0]"
          by blast
        show ?thesis
        proof (cases "malloc_handle env")
          case None
          with w8 assms show ?thesis
            by (simp add: make_thread_handle_no_memory new_events_def)
        next
          case (Some j)
          from make_thread_handle_allocated [OF Some, of "create_tid env" w8] w8 assms
          show ?thesis
            by (auto simp add: new_events_def)
        qed
      qed
    qed
  qed
qed

lemma parse0: "PyArg_ParseTuple_LOOOO w0 [1, 2, 3, 4, 5] = Inr (4096, 2, 3, 4, 5)"
  by (simp add: parse_five PyLong_AsLongLong_def PyNumber_Index_def w0_def objs0_def)

lemma callable0: "PyCallable_Check w0 2" "PyCallable_Check w0 3" "PyCallable_Check w0 4"
  by (simp_all add: PyCallable_Check_def w0_def objs0_def)

lemma launch0:
  "\<exists>w1. do_interruptably lenv0 [1, 2, 3, 4, 5] w0 = (Inr 10, w1) \<and>
     heap w1 = [0 \<mapsto> ThreadInfo_blk ti0, 1 \<mapsto> pthread_t_blk 7] \<and>
     threads w1 = [(7, 0)] \<and>
     trace w1 = [E_malloc 0, E_incref 2, E_incref 3, E_incref 4, E_incref 5,
                 E_pthread_create 0 0, E_malloc 1] \<and>
     next_obj w1 = 11"
proof -
  have e: "malloc_info lenv0 = Some junk0" "attr_init_ret lenv0 = 0"
    "setdetachstate_ret lenv0 = 0" "create_ret lenv0 = 0" "malloc_handle lenv0 = Some 0"
    "capsule_ok lenv0" "create_tid lenv0 = 7"
    by (simp_all add: lenv0_def)
  from launch_started [OF e(1) parse0 callable0 e(2-4)]
  obtain w8 where w8:
     "do_interruptably lenv0 [1, 2, 3, 4, 5] w0 = make_thread_handle lenv0 (create_tid lenv0) w8"
     "heap w8 = (heap w0)(next_addr w0 \<mapsto> ThreadInfo_blk
        \<lparr>ok_cbak = 2, cancel_cbak = 3, err_cbak = 4, data = 5, routine = 4096\<rparr>)"
     "threads w8 = threads w0 @ [(create_tid lenv0, next_addr w0)]"
     "next_obj w8 = next_obj w0" "next_addr w8 = Suc (next_addr w0)"
     "trace w8 = trace w0 @ [E_malloc (next_addr w0), E_incref 2, E_incref 3,
                           E_incref 4, E_incref 5, E_pthread_create (next_addr w0) 0]"
    by blast
  from make_thread_handle_allocated [OF e(5), of "create_tid lenv0" w8] e(6)
  obtain w' where w': "make_thread_handle lenv0 (create_tid lenv0) w8 = (Inr (next_obj w8), w')"
     "heap w' = (heap w8)(next_addr w8 \<mapsto> pthread_t_blk (create_tid lenv0))"
     "objs w' = (objs w8)(next_obj w8 := PyCapsule (next_addr w8) (Some THREAD_HANDLE_NAME))"
     "threads w' = threads w8"
     "trace w' = trace w8 @ [E_malloc (next_addr w8)]"
    by auto
  have n: "next_obj w' = 11"
    using w'(1) e(5,6) w8(4)
    by (auto simp add: make_thread_handle_def malloc_Some PyCapsule_New_def w0_def)
  show ?thesis
    using w8 w' e(7) n by (intro exI [of _ w']) (simp add: w0_def ti0_def)
qed


subsection \<open>Claims about a launch and its completion\<close>

text \<open>
  Claim C1, as the code has it.  After a successful launch the new thread runs on a
  context that holds the launch's own objects.  If nothing has touched that context, the
  thread ends (its routine returns or it is cancelled) and the argument tuple can be
  allocated, then the run makes exactly one call: of \<open>ok_cbak\<close> when the routine returned
  without a cancellation, of \<open>cancel_cbak\<close> otherwise, with the one argument the launch
  was given.  The context is not freed before that call and is freed exactly once after
  it.
\<close>

theorem exactly_one_completion_callback:
  assumes "do_interruptably lenv [a0, ok, cancel, err, d] w = (Inr handle, w1)"
      and "heap w2 (next_addr w) = heap w1 (next_addr w)"
      and "sched tenv \<noteq> Never_returns"
      and "build_ok tenv"
  shows "threads w1 = threads w @ [(create_tid lenv, next_addr w)] \<and>
     (\<exists>w3 before after.
        nativethread_run_thread tenv (next_addr w) w2 = Some (Exited w3) \<and>
        new_events w2 w3
          = before @ E_call (if sched tenv = Returns then ok else cancel) [d] # after \<and>
        filter is_call before = [] \<and> filter is_call after = [] \<and>
        E_free (next_addr w) \<notin> set before \<and>
        filter (\<lambda>e. e = E_free (next_addr w)) after = [E_free (next_addr w)] \<and>
        heap w3 (next_addr w) = None)"
proof -
  from launch_success [OF assms(1)]
  obtain fn where w1:
     "heap w1 = (heap w)(next_addr w \<mapsto> ThreadInfo_blk
        \<lparr>ok_cbak = ok, cancel_cbak = cancel, err_cbak = err, data = d, routine = fn\<rparr>,
        Suc (next_addr w) \<mapsto> pthread_t_blk (create_tid lenv))"
     "threads w1 = threads w @ [(create_tid lenv, next_addr w)]"
    by blast
  let ?ti = "\<lparr>ok_cbak = ok, cancel_cbak = cancel, err_cbak = err, data = d, routine = fn\<rparr>"
  let ?steps = "case sched tenv of
            Returns \<Rightarrow> [E_routine fn, E_routine_returned, E_setcancelstate False, E_cleanup_pop]
          | Cancelled_pending \<Rightarrow> [E_cancelled]
          | Cancelled_in_routine \<Rightarrow> [E_routine fn, E_cancelled]
          | Cancelled_after_routine \<Rightarrow> [E_routine fn, E_routine_returned, E_cancelled]
          | Never_returns \<Rightarrow> []"
  let ?before = "[E_cleanup_push (next_addr w), E_setcancelstate True, E_setcanceltype_async]
       @ ?steps @ [E_gil_ensure, E_build_value d (Some (next_obj w2))]"
  let ?after = "E_decref (next_obj w2)
       # (case call_ret tenv of Some r \<Rightarrow> [E_decref r] | None \<Rightarrow> [])
       @ [E_decref ok, E_decref cancel, E_decref err, E_decref d, E_gil_release,
          E_free (next_addr w)]"
  have live: "heap w2 (next_addr w) = Some (ThreadInfo_blk ?ti)"
    using assms(2) w1(1) by simp
  from run_thread_exits [OF live assms(3)] assms(4)
  obtain w3 where w3: "nativethread_run_thread tenv (next_addr w) w2 = Some (Exited w3)"
     "new_events w2 w3
        = ?before @ E_call (if sched tenv = Returns then ok else cancel) [d] # ?after"
     "heap w3 = (heap w2)(next_addr w := None)"
    by (cases "sched tenv") (auto simp add: new_events_def)
  have "filter is_call ?before = []" "E_free (next_addr w) \<notin> set ?before"
    by (cases "sched tenv"; simp)+
  moreover have "filter is_call ?after = []"
    "filter (\<lambda>e. e = E_free (next_addr w)) ?after = [E_free (next_addr w)]"
    by (cases "call_ret tenv"; simp)+
  ultimately show ?thesis
    using w1(2) w3 by (intro conjI exI [of _ w3] exI [of _ ?before] exI [of _ ?after]) simp_all
qed

theorem exactly_one_completion_callback_witness:
  "fst (do_interruptably lenv0 [1, 2, 3, 4, 5] w0) = Inr 10 \<and>
   sched tenv0 \<noteq> Never_returns \<and> build_ok tenv0 \<and>
   threads (snd (do_interruptably lenv0 [1, 2, 3, 4, 5] w0)) = [(7, 0)] \<and>
   (\<exists>w3. nativethread_run_thread tenv0 0 (snd (do_interruptably lenv0 [1, 2, 3, 4, 5] w0))
           = Some (Exited w3) \<and>
      filter is_call (new_events (snd (do_interruptably lenv0 [1, 2, 3, 4, 5] w0)) w3)
         = [E_call 2 [5]] \<and>
      heap w3 0 = None)"
proof -
  obtain w1 where w1: "do_interruptably lenv0 [1, 2, 3, 4, 5] w0 = (Inr 10, w1)"
    using launch0 by blast
  have s: "sched tenv0 \<noteq> Never_returns" "build_ok tenv0" "sched tenv0 = Returns"
    by (simp_all add: tenv0_def)
  have z: "next_addr w0 = 0" "threads w0 = []" "create_tid lenv0 = 7"
    by (simp_all add: w0_def lenv0_def)
  from exactly_one_completion_callback [OF w1 refl s(1,2)]
  obtain w3 before after where
    "threads w1 = threads w0 @ [(create_tid lenv0, next_addr w0)]"
    "nativethread_run_thread tenv0 (next_addr w0) w1 = Some (Exited w3)"
    "new_events w1 w3 = before @ E_call (if sched tenv0 = Returns then 2 else 3) [5] # after"
    "filter is_call before = []" "filter is_call after = []"
    "heap w3 (next_addr w0) = None"
    by blast
  then show ?thesis
    using w1 s z by auto
qed

text \<open>
  The claim as stated, a callback for every successful launch, fails when
  \<open>Py_BuildValue\<close> cannot allocate the argument tuple: the launch succeeds, the thread
  runs its routine to the end and exits, and the whole trace from the launch on holds no
  call.
\<close>

theorem no_callback_counterexample:
  "fst (do_interruptably lenv0 [1, 2, 3, 4, 5] w0) = Inr 10 \<and>
   map_option has_exited
     (nativethread_run_thread (tenv0\<lparr>build_ok := False\<rparr>) 0
        (snd (do_interruptably lenv0 [1, 2, 3, 4, 5] w0))) = Some True \<and>
   map_option (\<lambda>r. trace (world_of r))
     (nativethread_run_thread (tenv0\<lparr>build_ok := False\<rparr>) 0
        (snd (do_interruptably lenv0 [1, 2, 3, 4, 5] w0)))
   = Some [E_malloc 0, E_incref 2, E_incref 3, E_incref 4, E_incref 5,
           E_pthread_create 0 0, E_malloc 1,
           E_cleanup_push 0, E_setcancelstate True, E_setcanceltype_async, E_routine 4096,
           E_routine_returned, E_setcancelstate False, E_cleanup_pop,
           E_gil_ensure, E_build_value 5 None,
           E_decref 2, E_decref 3, E_decref 4, E_decref 5, E_gil_release, E_free 0]"
proof -
  obtain w1 where w1: "do_interruptably lenv0 [1, 2, 3, 4, 5] w0 = (Inr 10, w1)"
     "heap w1 = [0 \<mapsto> ThreadInfo_blk ti0, 1 \<mapsto> pthread_t_blk 7]"
     "trace w1 = [E_malloc 0, E_incref 2, E_incref 3, E_incref 4, E_incref 5,
                 E_pthread_create 0 0, E_malloc 1]"
    using launch0 by blast
  have live: "heap w1 0 = Some (ThreadInfo_blk ti0)"
    using w1(2) by simp
  have s: "sched (tenv0\<lparr>build_ok := False\<rparr>) \<noteq> Never_returns"
    by (simp add: tenv0_def)
  from run_thread_exits [OF live s]
  obtain w3 where "nativethread_run_thread (tenv0\<lparr>build_ok := False\<rparr>) 0 w1 = Some (Exited w3)"
    "trace w3 = trace w1 @ [E_cleanup_push 0, E_setcancelstate True, E_setcanceltype_async,
           E_routine 4096, E_routine_returned, E_setcancelstate False, E_cleanup_pop,
           E_gil_ensure, E_build_value 5 None,
           E_decref 2, E_decref 3, E_decref 4, E_decref 5, E_gil_release, E_free 0]"
    by (auto simp add: tenv0_def ti0_def)
  then show ?thesis
    using w1(1,3) by simp
qed

subsection \<open>Claims about the failures of a launch\<close>

text \<open>
  Claim C2 does not hold of the code.  When \<open>pthread_create\<close> fails (here with
  \<open>EAGAIN\<close>), \<open>do_interruptably\<close> raises the error and frees the \<open>ThreadInfo\<close>, but the
  four references it took with \<open>Py_INCREF\<close> just before are never released: no
  \<open>Py_DECREF\<close> is in the trace, and with the context gone nothing can release them later.
  When the thread has been created and the handle cannot be allocated, the call returns
  the error with the thread started and its context live.
\<close>

theorem failed_launch_keeps_references:
  "do_interruptably (lenv0\<lparr>create_ret := EAGAIN\<rparr>) [1, 2, 3, 4, 5] w0 =
     (Inl (SystemError, ''system could not allocate resources for a new thread''),
      w0\<lparr>next_addr := 1, refs := (\<lambda>ob. 0)(2 := 1, 3 := 1, 4 := 1, 5 := 1),
          trace := [E_malloc 0, E_incref 2, E_incref 3, E_incref 4, E_incref 5,
                    E_pthread_create 0 EAGAIN, E_free 0]\<rparr>) \<and>
   fst (do_interruptably (lenv0\<lparr>malloc_handle := None\<rparr>) [1, 2, 3, 4, 5] w0)
     = Inl PyErr_NoMemory \<and>
   threads (snd (do_interruptably (lenv0\<lparr>malloc_handle := None\<rparr>) [1, 2, 3, 4, 5] w0))
     = [(7, 0)] \<and>
   heap (snd (do_interruptably (lenv0\<lparr>malloc_handle := None\<rparr>) [1, 2, 3, 4, 5] w0)) 0
     = Some (ThreadInfo_blk ti0)"
proof (intro conjI)
  have "PyLong_AsLongLong
          (emit (E_malloc 0) (w0\<lparr>heap := [0 \<mapsto> ThreadInfo_blk junk0], next_addr := Suc 0\<rparr>)) 1
        = Inr 4096"
    by (simp add: PyLong_AsLongLong_def PyNumber_Index_def w0_def objs0_def)
  then show "do_interruptably (lenv0\<lparr>create_ret := EAGAIN\<rparr>) [1, 2, 3, 4, 5] w0 =
     (Inl (SystemError, ''system could not allocate resources for a new thread''),
      w0\<lparr>next_addr := 1, refs := (\<lambda>ob. 0)(2 := 1, 3 := 1, 4 := 1, 5 := 1),
          trace := [E_malloc 0, E_incref 2, E_incref 3, E_incref 4, E_incref 5,
                    E_pthread_create 0 EAGAIN, E_free 0]\<rparr>)"
    by (simp add: do_interruptably_def malloc_Some parse_five set_fields_def store_def
        PyCallable_Check_def Py_INCREF_def pthread_create_def free_def emit_def start_error_def
        lenv0_def w0_def objs0_def junk0_def EAGAIN_def ENOMEM_def Let_def fun_upd_twist)
next
  have e: "malloc_info (lenv0\<lparr>malloc_handle := None\<rparr>) = Some junk0"
    "attr_init_ret (lenv0\<lparr>malloc_handle := None\<rparr>) = 0"
    "setdetachstate_ret (lenv0\<lparr>malloc_handle := None\<rparr>) = 0"
    "create_ret (lenv0\<lparr>malloc_handle := None\<rparr>) = 0"
    "malloc_handle (lenv0\<lparr>malloc_handle := None\<rparr>) = None"
    "create_tid (lenv0\<lparr>malloc_handle := None\<rparr>) = 7"
    by (simp_all add: lenv0_def)
  from launch_started [OF e(1) parse0 callable0 e(2-4)]
  obtain w8 where w8:
     "do_interruptably (lenv0\<lparr>malloc_handle := None\<rparr>) [1, 2, 3, 4, 5] w0
        = make_thread_handle (lenv0\<lparr>malloc_handle := None\<rparr>)
            (create_tid (lenv0\<lparr>malloc_handle := None\<rparr>)) w8"
     "heap w8 = (heap w0)(next_addr w0 \<mapsto> ThreadInfo_blk
        \<lparr>ok_cbak = 2, cancel_cbak = 3, err_cbak = 4, data = 5, routine = 4096\<rparr>)"
     "threads w8 = threads w0
        @ [(create_tid (lenv0\<lparr>malloc_handle := None\<rparr>), next_addr w0)]"
    by blast
  have r: "do_interruptably (lenv0\<lparr>malloc_handle := None\<rparr>) [1, 2, 3, 4, 5] w0
      = (Inl PyErr_NoMemory, w8)"
    using w8(1) e(5) by (simp add: make_thread_handle_no_memory)
  show "fst (do_interruptably (lenv0\<lparr>malloc_handle := None\<rparr>) [1, 2, 3, 4, 5] w0)
     = Inl PyErr_NoMemory"
    using r by simp
  show "threads (snd (do_interruptably (lenv0\<lparr>malloc_handle := None\<rparr>) [1, 2, 3, 4, 5] w0))
     = [(7, 0)]"
    using r w8(3) e(6) by (simp add: w0_def)
  show "heap (snd (do_interruptably (lenv0\<lparr>malloc_handle := None\<rparr>) [1, 2, 3, 4, 5] w0)) 0
     = Some (ThreadInfo_blk ti0)"
    using r w8(2) by (simp add: w0_def ti0_def)
qed

lemma parse_bad_first:
  "PyLong_AsLongLong w a0 = Inl e0 \<Longrightarrow> \<exists>e. PyArg_ParseTuple_LOOOO w (a0 # rest) = Inl e"
  by (simp add: PyArg_ParseTuple_LOOOO_def split: list.split)

lemma launch_threads:
  "threads (snd (do_interruptably env args w)) = threads w \<or>
   (\<exists>fn ok cancel err d. PyArg_ParseTuple_LOOOO w args = Inr (fn, ok, cancel, err, d) \<and>
      threads (snd (do_interruptably env args w))
        = threads w @ [(create_tid env, next_addr w)] \<and>
      heap (snd (do_interruptably env args w)) (next_addr w) = Some (ThreadInfo_blk
        \<lparr>ok_cbak = ok, cancel_cbak = cancel, err_cbak = err, data = d, routine = fn\<rparr>))"
proof (cases "malloc_info env")
  case None
  then show ?thesis
    by (simp add: launch_no_memory)
next
  case (Some junk)
  show ?thesis
  proof (cases "PyArg_ParseTuple_LOOOO w args")
    case (Inl e)
    from launch_parse_error [OF Some Inl] show ?thesis
      by auto
  next
    case (Inr parsed)
    then obtain fn ok cancel err d
      where p: "PyArg_ParseTuple_LOOOO w args = Inr (fn, ok, cancel, err, d)"
      by (cases parsed) auto
    show ?thesis
    proof (cases "PyCallable_Check w ok \<and> PyCallable_Check w cancel \<and> PyCallable_Check w err")
      case False
      from launch_not_callable [OF Some p False] show ?thesis
        by auto
    next
      case True
      show ?thesis
      proof (cases "attr_init_ret env = 0 \<and> setdetachstate_ret env = 0 \<and> create_ret env = 0")
        case False
        then have "attr_init_ret env \<noteq> 0 \<or> setdetachstate_ret env \<noteq> 0 \<or> create_ret env \<noteq> 0"
          by blast
        from launch_create_failed [OF Some p _ _ _ this] True show ?thesis
          by auto
      next
        case zero: True
        from launch_started [OF Some p] True zero
        obtain w8 where w8:
          "do_interruptably env args w = make_thread_handle env (create_tid env) w8"
          "heap w8 = (heap w)(next_addr w \<mapsto> ThreadInfo_blk
             \<lparr>ok_cbak = ok, cancel_cbak = cancel, err_cbak = err, data = d, routine = fn\<rparr>)"
          "next_addr w8 = Suc (next_addr w)"
          "threads w8 = threads w @ [(create_tid env, next_addr w)]"
          by blast
        have "threads (snd (do_interruptably env args w))
              = threads w @ [(create_tid env, next_addr w)] \<and>
            heap (snd (do_interruptably env args w)) (next_addr w) = Some (ThreadInfo_blk
             \<lparr>ok_cbak = ok, cancel_cbak = cancel, err_cbak = err, data = d, routine = fn\<rparr>)"
        proof (cases "malloc_handle env")
          case None
          with w8 show ?thesis
            by (simp add: make_thread_handle_no_memory)
        next
          case (Some j)
          from make_thread_handle_allocated [OF Some, of "create_tid env" w8] w8
          show ?thesis
            by auto
        qed
        with p show ?thesis
          by blast
      qed
    qed
  qed
qed

text \<open>
  Claim C6, as the code has it.  When the context has been allocated and one of the three
  callbacks is not callable, \<open>do_interruptably\<close> raises an error, frees the context, takes
  no reference and starts no thread: it allocates, frees, and does nothing else.  The
  error is the \<open>TypeError\<close> of the callable check when the first argument is, or converts
  through \<open>__index__\<close> to, an integer in the range of \<open>long long\<close>.  Otherwise argument
  parsing has already failed, and the error is its own: the error of the conversion (the
  \<open>TypeError\<close> for an object with no \<open>__index__\<close>, or whatever the \<open>__index__\<close> of the
  object raised), or \<open>OverflowError\<close> for an integer out of range.
\<close>

theorem non_callable_callback_rejected:
  assumes "malloc_info env = Some junk"
      and "\<not> (PyCallable_Check w ok \<and> PyCallable_Check w cancel \<and> PyCallable_Check w err)"
  shows "\<exists>e w'. do_interruptably env [entry, ok, cancel, err, d] w = (Inl e, w') \<and>
     e = (case PyNumber_Index w entry of
            Inl conversion_error \<Rightarrow> conversion_error
          | Inr v \<Rightarrow>
              if - (2 ^ 63) \<le> v \<and> v < 2 ^ 63
              then (TypeError, ''arguments 2, 3, and 4 must be callable'')
              else (OverflowError, ''int too big to convert'')) \<and>
     heap w' = (heap w)(next_addr w := None) \<and> refs w' = refs w \<and>
     threads w' = threads w \<and>
     trace w' = trace w @ [E_malloc (next_addr w), E_free (next_addr w)]"
proof (cases "PyLong_AsLongLong w entry")
  case (Inl e)
  then have p: "PyArg_ParseTuple_LOOOO w [entry, ok, cancel, err, d] = Inl e"
    by (simp add: parse_five)
  have "e = (case PyNumber_Index w entry of
            Inl conversion_error \<Rightarrow> conversion_error
          | Inr v \<Rightarrow>
              if - (2 ^ 63) \<le> v \<and> v < 2 ^ 63
              then (TypeError, ''arguments 2, 3, and 4 must be callable'')
              else (OverflowError, ''int too big to convert''))"
    using Inl by (auto simp add: PyLong_AsLongLong_def split: sum.splits if_splits)
  moreover from launch_parse_error [OF assms(1) p]
  obtain w' where "do_interruptably env [entry, ok, cancel, err, d] w = (Inl e, w')"
    "heap w' = (heap w)(next_addr w := None)" "refs w' = refs w" "threads w' = threads w"
    "trace w' = trace w @ [E_malloc (next_addr w), E_free (next_addr w)]"
    by blast
  ultimately show ?thesis
    by (intro exI [of _ e] exI [of _ w']) simp
next
  case (Inr fn)
  then have p: "PyArg_ParseTuple_LOOOO w [entry, ok, cancel, err, d]
      = Inr (fn, ok, cancel, err, d)"
    by (simp add: parse_five)
  have "(TypeError, ''arguments 2, 3, and 4 must be callable'')
      = (case PyNumber_Index w entry of
            Inl conversion_error \<Rightarrow> conversion_error
          | Inr v \<Rightarrow>
              if - (2 ^ 63) \<le> v \<and> v < 2 ^ 63
              then (TypeError, ''arguments 2, 3, and 4 must be callable'')
              else (OverflowError, ''int too big to convert''))"
    using Inr by (auto simp add: PyLong_AsLongLong_def split: sum.splits if_splits)
  moreover from launch_not_callable [OF assms(1) p assms(2)]
  obtain w' where "do_interruptably env [entry, ok, cancel, err, d] w
      = (Inl (TypeError, ''arguments 2, 3, and 4 must be callable''), w')"
    "heap w' = (heap w)(next_addr w := None)" "refs w' = refs w" "threads w' = threads w"
    "trace w' = trace w @ [E_malloc (next_addr w), E_free (next_addr w)]"
    by blast
  ultimately show ?thesis
    by (intro exI [of _ "(TypeError, ''arguments 2, 3, and 4 must be callable'')"]
        exI [of _ w']) simp
qed

theorem non_callable_callback_rejected_witness:
  "malloc_info lenv0 = Some junk0 \<and> \<not> PyCallable_Check w0 8 \<and>
   PyNumber_Index w0 1 = Inr 4096 \<and> PyNumber_Index w0 9 = Inl (ValueError, ''boom'') \<and>
   (\<exists>w'. do_interruptably lenv0 [1, 8, 3, 4, 5] w0
          = (Inl (TypeError, ''arguments 2, 3, and 4 must be callable''), w') \<and>
      heap w' = Map.empty \<and> refs w' = (\<lambda>ob. 0) \<and> threads w' = [] \<and>
      trace w' = [E_malloc 0, E_free 0]) \<and>
   (\<exists>w'. do_interruptably lenv0 [9, 8, 3, 4, 5] w0 = (Inl (ValueError, ''boom''), w') \<and>
      heap w' = Map.empty \<and> refs w' = (\<lambda>ob. 0) \<and> threads w' = [] \<and>
      trace w' = [E_malloc 0, E_free 0])"
proof -
  have m: "malloc_info lenv0 = Some junk0"
    by (simp add: lenv0_def)
  have c: "\<not> (PyCallable_Check w0 8 \<and> PyCallable_Check w0 3 \<and> PyCallable_Check w0 4)"
    and c8: "\<not> PyCallable_Check w0 8"
    by (simp_all add: PyCallable_Check_def w0_def objs0_def)
  have i: "PyNumber_Index w0 1 = Inr 4096" "PyNumber_Index w0 9 = Inl (ValueError, ''boom'')"
    by (simp_all add: PyNumber_Index_def w0_def objs0_def)
  have o: "heap w0 = Map.empty" "refs w0 = (\<lambda>ob. 0)" "threads w0 = []" "trace w0 = []"
    "next_addr w0 = 0"
    by (simp_all add: w0_def)
  from non_callable_callback_rejected [OF m c, of 1 5] i o
  have a: "\<exists>w'. do_interruptably lenv0 [1, 8, 3, 4, 5] w0
          = (Inl (TypeError, ''arguments 2, 3, and 4 must be callable''), w') \<and>
      heap w' = Map.empty \<and> refs w' = (\<lambda>ob. 0) \<and> threads w' = [] \<and>
      trace w' = [E_malloc 0, E_free 0]"
    by auto
  from non_callable_callback_rejected [OF m c, of 9 5] i o
  have b: "\<exists>w'. do_interruptably lenv0 [9, 8, 3, 4, 5] w0 = (Inl (ValueError, ''boom''), w') \<and>
      heap w' = Map.empty \<and> refs w' = (\<lambda>ob. 0) \<and> threads w' = [] \<and>
      trace w' = [E_malloc 0, E_free 0]"
    by auto
  from m c8 i a b show ?thesis
    by blast
qed

text \<open>
  The claim as stated, a type error and a freed context for every call with a callback
  that is not callable, fails in two ways.  Object \<open>8\<close> is not callable and object \<open>6\<close>
  is the integer \<open>2 ^ 63\<close>: the call fails in argument parsing with \<open>OverflowError\<close>.
  And when the context cannot be allocated, the call raises \<open>MemoryError\<close> before it
  looks at any argument, and changes nothing.
\<close>

theorem non_callable_overflow_counterexample:
  "\<not> PyCallable_Check w0 8 \<and>
   fst (do_interruptably lenv0 [6, 8, 3, 4, 5] w0)
     = Inl (OverflowError, ''int too big to convert'') \<and>
   do_interruptably (lenv0\<lparr>malloc_info := None\<rparr>) [1, 8, 3, 4, 5] w0
     = (Inl (MemoryError, ''''), w0)"
proof -
  have m: "malloc_info lenv0 = Some junk0"
    by (simp add: lenv0_def)
  have "PyArg_ParseTuple_LOOOO w0 [6, 8, 3, 4, 5] = Inl (OverflowError, ''int too big to convert'')"
    by (simp add: parse_five PyLong_AsLongLong_def PyNumber_Index_def w0_def objs0_def)
  from launch_parse_error [OF m this]
  have "fst (do_interruptably lenv0 [6, 8, 3, 4, 5] w0)
     = Inl (OverflowError, ''int too big to convert'')"
    by auto
  moreover have "\<not> PyCallable_Check w0 8"
    by (simp add: PyCallable_Check_def w0_def objs0_def)
  moreover have "do_interruptably (lenv0\<lparr>malloc_info := None\<rparr>) [1, 8, 3, 4, 5] w0
     = (Inl (MemoryError, ''''), w0)"
    by (simp add: launch_no_memory PyErr_NoMemory_def)
  ultimately show ?thesis
    by blast
qed

text \<open>
  Claim C10, as the code has it.  The first argument is parsed by \<open>PyLong_AsLongLong\<close>
  into a \<open>long long\<close>.  With the context allocated, a call whose first argument does not
  convert to an integer (an object with no \<open>__index__\<close>, or a conversion that raises), or
  converts to one outside \<open>- 2 ^ 63 .. 2 ^ 63 - 1\<close>, fails in argument parsing, whatever
  the other arguments are: the context is freed, no reference is taken and no thread is
  started.  A first argument that is, or converts through \<open>__index__\<close> to, an integer in
  that range is parsed to the 64-bit word that reads back, signed, as the same integer,
  and whenever the call starts a thread, that word is the \<open>routine\<close> of the thread's
  context.
\<close>

theorem entry_point_parsed_as_int64:
  assumes "malloc_info env = Some junk"
  shows "((\<forall>v. PyNumber_Index w entry = Inr v \<longrightarrow> v < - (2 ^ 63) \<or> 2 ^ 63 \<le> v) \<longrightarrow>
           (\<exists>e w'. PyArg_ParseTuple_LOOOO w (entry # rest) = Inl e \<and>
              do_interruptably env (entry # rest) w = (Inl e, w') \<and>
              (length rest = 4 \<longrightarrow>
                 e = (case PyNumber_Index w entry of
                        Inl conversion_error \<Rightarrow> conversion_error
                      | Inr v \<Rightarrow> (OverflowError, ''int too big to convert''))) \<and>
              heap w' = (heap w)(next_addr w := None) \<and> refs w' = refs w \<and>
              threads w' = threads w \<and>
              trace w' = trace w @ [E_malloc (next_addr w), E_free (next_addr w)])) \<and>
         (\<forall>v. PyNumber_Index w entry = Inr v \<and> - (2 ^ 63) \<le> v \<and> v < 2 ^ 63 \<longrightarrow>
            PyArg_ParseTuple_LOOOO w [entry, ok, cancel, err, d]
              = Inr (word_of_int v, ok, cancel, err, d) \<and>
            sint (word_of_int v :: 64 word) = v \<and>
            (threads (snd (do_interruptably env [entry, ok, cancel, err, d] w)) = threads w \<or>
             threads (snd (do_interruptably env [entry, ok, cancel, err, d] w))
               = threads w @ [(create_tid env, next_addr w)] \<and>
             heap (snd (do_interruptably env [entry, ok, cancel, err, d] w)) (next_addr w)
               = Some (ThreadInfo_blk
                   \<lparr>ok_cbak = ok, cancel_cbak = cancel, err_cbak = err, data = d,
                      routine = word_of_int v\<rparr>)))"
proof (intro conjI impI allI)
  assume bad: "\<forall>v. PyNumber_Index w entry = Inr v \<longrightarrow> v < - (2 ^ 63) \<or> 2 ^ 63 \<le> v"
  then have e0: "PyLong_AsLongLong w entry
      = Inl (case PyNumber_Index w entry of
               Inl conversion_error \<Rightarrow> conversion_error
             | Inr v \<Rightarrow> (OverflowError, ''int too big to convert''))"
    by (cases "PyNumber_Index w entry") (auto simp add: PyLong_AsLongLong_def)
  obtain e where e: "PyArg_ParseTuple_LOOOO w (entry # rest) = Inl e"
    using parse_bad_first [OF e0] by blast
  have "e = (case PyNumber_Index w entry of
               Inl conversion_error \<Rightarrow> conversion_error
             | Inr v \<Rightarrow> (OverflowError, ''int too big to convert''))"
    if "length rest = 4"
  proof -
    from that obtain a1 a2 a3 a4 where "rest = [a1, a2, a3, a4]"
      by (auto simp add: numeral_eq_Suc length_Suc_conv)
    with e e0 show ?thesis
      by (simp add: parse_five)
  qed
  moreover from launch_parse_error [OF assms e]
  obtain w' where "do_interruptably env (entry # rest) w = (Inl e, w')"
    "heap w' = (heap w)(next_addr w := None)" "refs w' = refs w" "threads w' = threads w"
    "trace w' = trace w @ [E_malloc (next_addr w), E_free (next_addr w)]"
    by blast
  ultimately show "\<exists>e w'. PyArg_ParseTuple_LOOOO w (entry # rest) = Inl e \<and>
              do_interruptably env (entry # rest) w = (Inl e, w') \<and>
              (length rest = 4 \<longrightarrow>
                 e = (case PyNumber_Index w entry of
                        Inl conversion_error \<Rightarrow> conversion_error
                      | Inr v \<Rightarrow> (OverflowError, ''int too big to convert''))) \<and>
              heap w' = (heap w)(next_addr w := None) \<and> refs w' = refs w \<and>
              threads w' = threads w \<and>
              trace w' = trace w @ [E_malloc (next_addr w), E_free (next_addr w)]"
    using e by (intro exI [of _ e] exI [of _ w']) simp
next
  fix v
  assume good: "PyNumber_Index w entry = Inr v \<and> - (2 ^ 63) \<le> v \<and> v < 2 ^ 63"
  then show p: "PyArg_ParseTuple_LOOOO w [entry, ok, cancel, err, d]
              = Inr (word_of_int v, ok, cancel, err, d)"
    by (simp add: parse_five PyLong_AsLongLong_def)
  show "sint (word_of_int v :: 64 word) = v"
    using good by (simp add: sint_sbintrunc' signed_take_bit_int_eq_self)
  from launch_threads [of env "[entry, ok, cancel, err, d]" w] p
  show "threads (snd (do_interruptably env [entry, ok, cancel, err, d] w)) = threads w \<or>
             threads (snd (do_interruptably env [entry, ok, cancel, err, d] w))
               = threads w @ [(create_tid env, next_addr w)] \<and>
             heap (snd (do_interruptably env [entry, ok, cancel, err, d] w)) (next_addr w)
               = Some (ThreadInfo_blk
                   \<lparr>ok_cbak = ok, cancel_cbak = cancel, err_cbak = err, data = d,
                      routine = word_of_int v\<rparr>)"
    by auto
qed

theorem entry_point_parsed_as_int64_witness:
  "malloc_info lenv0 = Some junk0 \<and>
   PyNumber_Index w0 6 = Inr (2 ^ 63) \<and> PyNumber_Index w0 9 = Inl (ValueError, ''boom'') \<and>
   PyNumber_Index w0 5 = Inl (not_an_integer ''object'') \<and>
   PyNumber_Index w0 1 = Inr 4096 \<and>
   (\<exists>w'. do_interruptably lenv0 [6, 2, 3, 4, 5] w0
           = (Inl (OverflowError, ''int too big to convert''), w') \<and>
      heap w' = Map.empty \<and> refs w' = (\<lambda>ob. 0) \<and> threads w' = []) \<and>
   (\<exists>w'. do_interruptably lenv0 [9, 2, 3, 4, 5] w0 = (Inl (ValueError, ''boom''), w') \<and>
      heap w' = Map.empty \<and> refs w' = (\<lambda>ob. 0) \<and> threads w' = []) \<and>
   (\<exists>w'. do_interruptably lenv0 [5, 2, 3, 4, 5] w0 = (Inl (not_an_integer ''object''), w') \<and>
      heap w' = Map.empty \<and> refs w' = (\<lambda>ob. 0) \<and> threads w' = []) \<and>
   PyArg_ParseTuple_LOOOO w0 [1, 2, 3, 4, 5] = Inr (4096, 2, 3, 4, 5) \<and>
   sint (4096 :: 64 word) = 4096 \<and>
   threads (snd (do_interruptably lenv0 [1, 2, 3, 4, 5] w0)) = [(7, 0)] \<and>
   heap (snd (do_interruptably lenv0 [1, 2, 3, 4, 5] w0)) 0 = Some (ThreadInfo_blk ti0)"
proof -
  have m: "malloc_info lenv0 = Some junk0"
    by (simp add: lenv0_def)
  have i: "PyNumber_Index w0 6 = Inr (2 ^ 63)" "PyNumber_Index w0 9 = Inl (ValueError, ''boom'')"
    "PyNumber_Index w0 5 = Inl (not_an_integer ''object'')" "PyNumber_Index w0 1 = Inr 4096"
    by (simp_all add: PyNumber_Index_def w0_def objs0_def)
  have z: "heap w0 = Map.empty" "refs w0 = (\<lambda>ob. 0)" "threads w0 = []" "next_addr w0 = 0"
    "create_tid lenv0 = 7"
    by (simp_all add: w0_def lenv0_def)
  note t6 = entry_point_parsed_as_int64 [OF m, of w0 6 "[2, 3, 4, 5]" 2 3 4 5]
  note t9 = entry_point_parsed_as_int64 [OF m, of w0 9 "[2, 3, 4, 5]" 2 3 4 5]
  note t5 = entry_point_parsed_as_int64 [OF m, of w0 5 "[2, 3, 4, 5]" 2 3 4 5]
  note t1 = entry_point_parsed_as_int64 [OF m, of w0 1 "[2, 3, 4, 5]" 2 3 4 5]
  have a: "\<exists>w'. do_interruptably lenv0 [6, 2, 3, 4, 5] w0
           = (Inl (OverflowError, ''int too big to convert''), w') \<and>
      heap w' = Map.empty \<and> refs w' = (\<lambda>ob. 0) \<and> threads w' = []"
    using t6 i z by auto
  have b: "\<exists>w'. do_interruptably lenv0 [9, 2, 3, 4, 5] w0 = (Inl (ValueError, ''boom''), w') \<and>
      heap w' = Map.empty \<and> refs w' = (\<lambda>ob. 0) \<and> threads w' = []"
    using t9 i z by auto
  have b': "\<exists>w'. do_interruptably lenv0 [5, 2, 3, 4, 5] w0
           = (Inl (not_an_integer ''object''), w') \<and>
      heap w' = Map.empty \<and> refs w' = (\<lambda>ob. 0) \<and> threads w' = []"
    using t5 i z by auto
  obtain w1 where w1: "do_interruptably lenv0 [1, 2, 3, 4, 5] w0 = (Inr 10, w1)"
    "threads w1 = [(7, 0)]"
    using launch0 by blast
  have c: "PyArg_ParseTuple_LOOOO w0 [1, 2, 3, 4, 5] = Inr (4096, 2, 3, 4, 5) \<and>
     sint (4096 :: 64 word) = 4096 \<and>
     threads (snd (do_interruptably lenv0 [1, 2, 3, 4, 5] w0)) = [(7, 0)] \<and>
     heap (snd (do_interruptably lenv0 [1, 2, 3, 4, 5] w0)) 0 = Some (ThreadInfo_blk ti0)"
    using t1 i w1 z by (auto simp add: ti0_def)
  from a b b' c m i show ?thesis
    by blast
qed

text \<open>
  The claim as stated fails in two ways.  Object \<open>8\<close> is not an integer, and the call
  does not fail in argument parsing: its \<open>__index__\<close> returns \<open>4096\<close>, the launch
  succeeds, and the thread runs the routine \<open>4096\<close>.  And when the context cannot be
  allocated, a call whose first argument is out of range fails before argument parsing,
  with \<open>MemoryError\<close>.
\<close>

theorem index_object_launches_counterexample:
  "objs w0 8 = PyObject False (Index_returns 4096) \<and>
   fst (do_interruptably lenv0 [8, 2, 3, 4, 5] w0) = Inr 10 \<and>
   threads (snd (do_interruptably lenv0 [8, 2, 3, 4, 5] w0)) = [(7, 0)] \<and>
   heap (snd (do_interruptably lenv0 [8, 2, 3, 4, 5] w0)) 0 = Some (ThreadInfo_blk ti0) \<and>
   do_interruptably (lenv0\<lparr>malloc_info := None\<rparr>) [6, 2, 3, 4, 5] w0
     = (Inl (MemoryError, ''''), w0)"
proof -
  have e: "malloc_info lenv0 = Some junk0" "attr_init_ret lenv0 = 0"
    "setdetachstate_ret lenv0 = 0" "create_ret lenv0 = 0" "malloc_handle lenv0 = Some 0"
    "capsule_ok lenv0" "create_tid lenv0 = 7"
    by (simp_all add: lenv0_def)
  have o: "objs w0 8 = PyObject False (Index_returns 4096)"
    by (simp add: w0_def objs0_def)
  have p: "PyArg_ParseTuple_LOOOO w0 [8, 2, 3, 4, 5] = Inr (4096, 2, 3, 4, 5)"
    by (simp add: parse_five PyLong_AsLongLong_def PyNumber_Index_def o)
  from launch_started [OF e(1) p callable0 e(2-4)]
  obtain w8 where w8:
     "do_interruptably lenv0 [8, 2, 3, 4, 5] w0 = make_thread_handle lenv0 (create_tid lenv0) w8"
     "heap w8 = (heap w0)(next_addr w0 \<mapsto> ThreadInfo_blk
        \<lparr>ok_cbak = 2, cancel_cbak = 3, err_cbak = 4, data = 5, routine = 4096\<rparr>)"
     "threads w8 = threads w0 @ [(create_tid lenv0, next_addr w0)]"
     "next_obj w8 = next_obj w0" "next_addr w8 = Suc (next_addr w0)"
    by blast
  from make_thread_handle_allocated [OF e(5), of "create_tid lenv0" w8] e(6)
  obtain w' where w': "make_thread_handle lenv0 (create_tid lenv0) w8 = (Inr (next_obj w8), w')"
     "heap w' = (heap w8)(next_addr w8 \<mapsto> pthread_t_blk (create_tid lenv0))"
     "threads w' = threads w8"
    by auto
  have "fst (do_interruptably lenv0 [8, 2, 3, 4, 5] w0) = Inr 10"
    "threads (snd (do_interruptably lenv0 [8, 2, 3, 4, 5] w0)) = [(7, 0)]"
    "heap (snd (do_interruptably lenv0 [8, 2, 3, 4, 5] w0)) 0 = Some (ThreadInfo_blk ti0)"
    using w8 w' e(7) by (simp_all add: w0_def ti0_def)
  moreover have "do_interruptably (lenv0\<lparr>malloc_info := None\<rparr>) [6, 2, 3, 4, 5] w0
     = (Inl (MemoryError, ''''), w0)"
    by (simp add: launch_no_memory PyErr_NoMemory_def)
  ultimately show ?thesis
    using o by blast
qed

subsection \<open>Claims about the three callbacks and the end of a context\<close>

lemma launch_makes_no_call:
  "filter is_call (new_events w (snd (do_interruptably lenv args w))) = []"
  using launch_frame [of "Suc (Suc (next_addr w))" w lenv args] by simp

lemma run_thread_calls:
  assumes "heap w thr = Some (ThreadInfo_blk ti)"
  shows "\<exists>r. nativethread_run_thread env thr w = Some r \<and>
     has_exited r = (sched env \<noteq> Never_returns) \<and>
     filter is_call (new_events w (world_of r)) =
       (if sched env \<noteq> Never_returns \<and> build_ok env
        then [E_call (if sched env = Returns then ok_cbak ti else cancel_cbak ti) [data ti]]
        else []) \<and>
     (sched env \<noteq> Never_returns \<longrightarrow>
        filter (\<lambda>e. e = E_free thr) (new_events w (world_of r)) = [E_free thr] \<and>
        E_decref (err_cbak ti) \<in> set (new_events w (world_of r)) \<and>
        heap (world_of r) = (heap w)(thr := None) \<and>
        (\<forall>x. refs (world_of r) x = refs w x
           - int (count_list [ok_cbak ti, cancel_cbak ti, err_cbak ti, data ti] x))) \<and>
     (\<forall>other. other \<noteq> thr \<longrightarrow> heap (world_of r) other = heap w other)"
proof (cases "sched env = Never_returns")
  case True
  with run_thread_running [OF assms True, of ] show ?thesis
    by (auto simp add: new_events_def)
next
  case False
  from run_thread_exits [OF assms False]
  obtain w' where w': "nativethread_run_thread env thr w = Some (Exited w')"
    "new_events w w' = [E_cleanup_push thr, E_setcancelstate True, E_setcanceltype_async]
       @ (case sched env of
            Returns \<Rightarrow> [E_routine (routine ti), E_routine_returned,
                        E_setcancelstate False, E_cleanup_pop]
          | Cancelled_pending \<Rightarrow> [E_cancelled]
          | Cancelled_in_routine \<Rightarrow> [E_routine (routine ti), E_cancelled]
          | Cancelled_after_routine \<Rightarrow>
              [E_routine (routine ti), E_routine_returned, E_cancelled]
          | Never_returns \<Rightarrow> [])
       @ [E_gil_ensure, E_build_value (data ti) (if build_ok env then Some (next_obj w) else None)]
       @ (if build_ok env
          then E_call (if sched env = Returns then ok_cbak ti else cancel_cbak ti) [data ti]
               # E_decref (next_obj w)
               # (case call_ret env of Some r \<Rightarrow> [E_decref r] | None \<Rightarrow> [])
          else [])
       @ [E_decref (ok_cbak ti), E_decref (cancel_cbak ti), E_decref (err_cbak ti),
          E_decref (data ti), E_gil_release, E_free thr]"
    "heap w' = (heap w)(thr := None)"
    "\<forall>x. refs w' x = refs w x
        - int (count_list [ok_cbak ti, cancel_cbak ti, err_cbak ti, data ti] x)"
    by (auto simp add: new_events_def)
  have "filter is_call (new_events w w') =
       (if build_ok env
        then [E_call (if sched env = Returns then ok_cbak ti else cancel_cbak ti) [data ti]]
        else [])"
    unfolding w'(2) by (cases "sched env"; cases "call_ret env"; simp)
  moreover have "filter (\<lambda>e. e = E_free thr) (new_events w w') = [E_free thr]"
    unfolding w'(2) by (cases "sched env"; cases "call_ret env"; simp)
  moreover have "E_decref (err_cbak ti) \<in> set (new_events w w')"
    unfolding w'(2) by simp
  ultimately show ?thesis
    using w'(1,3,4) False by (intro exI [of _ "Exited w'"]) simp
qed

text \<open>
  Claim C5.  No run of the module invokes \<open>err_cbak\<close>.  The only calls of a Python
  callable are made by the bridge at the end of a thread: at most one call per thread, of
  the \<open>ok_cbak\<close> field after a normal return and of the \<open>cancel_cbak\<close> field after a
  cancellation; so an \<open>err_cbak\<close> that is neither of these two objects is never called.
  \<open>do_interruptably\<close> and \<open>interrupt\<close> call nothing.  What happens to \<open>err_cbak\<close> is a
  \<open>Py_INCREF\<close> in a successful launch and a \<open>Py_DECREF\<close> when the thread ends.
\<close>

theorem err_cbak_never_invoked:
  assumes "heap w thr = Some (ThreadInfo_blk ti)"
  shows "(\<exists>r. nativethread_run_thread env thr w = Some r \<and>
            filter is_call (new_events w (world_of r)) =
              (if has_exited r \<and> build_ok env
               then [E_call (if sched env = Returns then ok_cbak ti else cancel_cbak ti)
                       [data ti]]
               else []) \<and>
            (err_cbak ti \<noteq> ok_cbak ti \<and> err_cbak ti \<noteq> cancel_cbak ti \<longrightarrow>
               (\<forall>xs. E_call (err_cbak ti) xs \<notin> set (new_events w (world_of r)))) \<and>
            (has_exited r \<longrightarrow> E_decref (err_cbak ti) \<in> set (new_events w (world_of r)))) \<and>
         filter is_call (new_events wl (snd (do_interruptably lenv args wl))) = [] \<and>
         (\<forall>handle w1. do_interruptably lenv [entry, ok, cancel, err, d] wl = (Inr handle, w1) \<longrightarrow>
            new_events wl w1 =
              [E_malloc (next_addr wl), E_incref ok, E_incref cancel, E_incref err, E_incref d,
               E_pthread_create (next_addr wl) 0, E_malloc (Suc (next_addr wl))]) \<and>
         (\<forall>r w'. interrupt ret iargs wi = Some (r, w') \<longrightarrow>
            filter is_call (new_events wi w') = [])"
proof (intro conjI allI impI)
  from run_thread_calls [OF assms, of env]
  obtain r where r: "nativethread_run_thread env thr w = Some r"
     "has_exited r = (sched env \<noteq> Never_returns)"
     "filter is_call (new_events w (world_of r)) =
       (if sched env \<noteq> Never_returns \<and> build_ok env
        then [E_call (if sched env = Returns then ok_cbak ti else cancel_cbak ti) [data ti]]
        else [])"
     "sched env \<noteq> Never_returns \<longrightarrow>
        E_decref (err_cbak ti) \<in> set (new_events w (world_of r))"
    by blast
  have "\<forall>xs. E_call (err_cbak ti) xs \<notin> set (new_events w (world_of r))"
    if "err_cbak ti \<noteq> ok_cbak ti \<and> err_cbak ti \<noteq> cancel_cbak ti"
  proof
    fix xs
    have "E_call (err_cbak ti) xs \<notin> set (filter is_call (new_events w (world_of r)))"
      unfolding r(3) using that by auto
    then show "E_call (err_cbak ti) xs \<notin> set (new_events w (world_of r))"
      by simp
  qed
  with r show "\<exists>r. nativethread_run_thread env thr w = Some r \<and>
            filter is_call (new_events w (world_of r)) =
              (if has_exited r \<and> build_ok env
               then [E_call (if sched env = Returns then ok_cbak ti else cancel_cbak ti)
                       [data ti]]
               else []) \<and>
            (err_cbak ti \<noteq> ok_cbak ti \<and> err_cbak ti \<noteq> cancel_cbak ti \<longrightarrow>
               (\<forall>xs. E_call (err_cbak ti) xs \<notin> set (new_events w (world_of r)))) \<and>
            (has_exited r \<longrightarrow> E_decref (err_cbak ti) \<in> set (new_events w (world_of r)))"
    by (intro exI [of _ r]) simp
next
  show "filter is_call (new_events wl (snd (do_interruptably lenv args wl))) = []"
    by (rule launch_makes_no_call)
next
  fix handle w1
  assume "do_interruptably lenv [entry, ok, cancel, err, d] wl = (Inr handle, w1)"
  from launch_success [OF this]
  show "new_events wl w1 = [E_malloc (next_addr wl), E_incref ok, E_incref cancel,
          E_incref err, E_incref d, E_pthread_create (next_addr wl) 0,
          E_malloc (Suc (next_addr wl))]"
    by (auto simp add: new_events_def)
next
  fix r w'
  assume "interrupt ret iargs wi = Some (r, w')"
  from interrupt_frame [OF this]
  show "filter is_call (new_events wi w') = []"
    by simp
qed


theorem err_cbak_never_invoked_witness:
  "heap w_live 0 = Some (ThreadInfo_blk ti0) \<and>
   err_cbak ti0 \<noteq> ok_cbak ti0 \<and> err_cbak ti0 \<noteq> cancel_cbak ti0 \<and>
   (\<exists>r. nativethread_run_thread tenv0 0 w_live = Some r \<and> has_exited r \<and>
      filter is_call (new_events w_live (world_of r)) = [E_call 2 [5]] \<and>
      E_decref 4 \<in> set (new_events w_live (world_of r))) \<and>
   (\<exists>w1. do_interruptably lenv0 [1, 2, 3, 4, 5] w0 = (Inr 10, w1) \<and>
      new_events w0 w1 = [E_malloc 0, E_incref 2, E_incref 3, E_incref 4, E_incref 5,
                          E_pthread_create 0 0, E_malloc 1]) \<and>
   (\<exists>w'. interrupt 0 [9] w_live = Some (Inr Py_None, w') \<and>
      filter is_call (new_events w_live w') = [])"
proof -
  have h: "heap w_live 0 = Some (ThreadInfo_blk ti0)"
    by (simp add: w_live_def)
  have d: "err_cbak ti0 \<noteq> ok_cbak ti0" "err_cbak ti0 \<noteq> cancel_cbak ti0"
    by (simp_all add: ti0_def)
  obtain w1 where w1: "do_interruptably lenv0 [1, 2, 3, 4, 5] w0 = (Inr 10, w1)"
    using launch0 by blast
  obtain wi where wi: "interrupt 0 [9] w_live = Some (Inr Py_None, wi)"
    by (simp add: interrupt_def PyArg_ParseTuple_O_def PyCapsule_CheckExact_def
        PyCapsule_GetPointer_def pthread_cancel_def w_live_def)
  note t = err_cbak_never_invoked [OF h, of tenv0 w0 lenv0 "[1, 2, 3, 4, 5]" 1 2 3 4 5 0 "[9]"
      w_live]
  from t obtain r where r: "nativethread_run_thread tenv0 0 w_live = Some r"
     "filter is_call (new_events w_live (world_of r)) =
              (if has_exited r \<and> build_ok tenv0
               then [E_call (if sched tenv0 = Returns then ok_cbak ti0 else cancel_cbak ti0)
                       [data ti0]]
               else [])"
     "has_exited r \<longrightarrow> E_decref (err_cbak ti0) \<in> set (new_events w_live (world_of r))"
    by blast
  have e: "has_exited r"
    using r(1) h by (cases r) (auto simp add: nativethread_run_thread_def tenv0_def Let_def)
  have n: "new_events w0 w1 = [E_malloc 0, E_incref 2, E_incref 3, E_incref 4, E_incref 5,
                          E_pthread_create 0 0, E_malloc 1]"
    using t w1 by (simp add: w0_def)
  have c: "filter is_call (new_events w_live wi) = []"
    using t wi by blast
  from r e have "filter is_call (new_events w_live (world_of r)) = [E_call 2 [5]]"
      "E_decref 4 \<in> set (new_events w_live (world_of r))"
    by (simp_all add: tenv0_def ti0_def)
  with h d r(1) e w1 n wi c show ?thesis
    by blast
qed

subsection \<open>The reachable states and the end of a context\<close>

lemma well_formed_emit [simp]: "well_formed (emit e w) = well_formed w"
  by (simp add: well_formed_def)

lemma well_formed_free: "well_formed w \<Longrightarrow> well_formed (free a w)"
  by (simp add: well_formed_def)

lemma well_formed_w0: "well_formed w0"
  by (simp add: well_formed_def w0_def objs0_def THREAD_HANDLE_NAME_def)

lemma well_formed_w_live: "well_formed w_live"
  by (auto simp add: well_formed_def w_live_def objs0_def THREAD_HANDLE_NAME_def
      split: if_splits)

lemma handler_exec_objs:
  assumes "heap w thr = Some (ThreadInfo_blk ti)" "handler_exec env thr cb w = Some w'"
  shows "next_addr w' = next_addr w \<and>
         (objs w' = objs w \<or> objs w' = (objs w)(next_obj w := PyTuple [data ti]))"
  using assms
  by (cases "build_ok env"; cases "call_ret env")
     (auto simp add: handler_exec_def Py_BuildValue_O_def PyObject_CallObject_def Let_def)

lemma handler_exec_well_formed:
  assumes "heap w thr = Some (ThreadInfo_blk ti)" "handler_exec env thr cb w = Some w'"
      and "well_formed w"
  shows "well_formed w'"
proof -
  have h: "heap w' = (heap w)(thr := None)"
    using handler_exec_heap [OF assms(1,2)] by simp
  have n: "next_addr w' = next_addr w"
    and o: "objs w' = objs w \<or> objs w' = (objs w)(next_obj w := PyTuple [data ti])"
    using handler_exec_objs [OF assms(1,2)] by simp_all
  from o show ?thesis
  proof
    assume "objs w' = objs w"
    with assms(3) h n show ?thesis
      by (simp add: well_formed_def)
  next
    assume "objs w' = (objs w)(next_obj w := PyTuple [data ti])"
    with assms(3) h n show ?thesis
      by (simp add: well_formed_def)
  qed
qed

lemma run_thread_well_formed:
  assumes "heap w thr = Some (ThreadInfo_blk ti)" "nativethread_run_thread env thr w = Some r"
      and "well_formed w"
  shows "well_formed (world_of r)"
proof -
  let ?start = "emit E_setcanceltype_async (emit (E_setcancelstate True)
                  (emit (E_cleanup_push thr) w))"
  let ?called = "emit (E_routine (routine ti)) ?start"
  let ?returned = "emit E_routine_returned ?called"
  have "\<exists>ws cb. heap ws thr = Some (ThreadInfo_blk ti) \<and> well_formed ws \<and>
          (r = Running ws \<or> (\<exists>w'. handler_exec env thr cb ws = Some w' \<and> r = Exited w'))"
  proof (cases "sched env")
    case Returns
    then have "nativethread_run_thread env thr w = map_option Exited
        (handler_exec env thr (ok_cbak ti)
           (emit E_cleanup_pop (emit (E_setcancelstate False) ?returned)))"
      using assms(1) by (simp add: nativethread_run_thread_def Let_def)
    with assms show ?thesis
      by (intro exI [of _ "emit E_cleanup_pop (emit (E_setcancelstate False) ?returned)"]
          exI [of _ "ok_cbak ti"]) auto
  next
    case Cancelled_pending
    then have "nativethread_run_thread env thr w = map_option Exited
        (handler_exec env thr (cancel_cbak ti) (emit E_cancelled ?start))"
      using assms(1)
      by (simp add: nativethread_run_thread_def act_on_cancel_def
          nativethread_cancel_handler_def Let_def)
    with assms show ?thesis
      by (intro exI [of _ "emit E_cancelled ?start"] exI [of _ "cancel_cbak ti"]) auto
  next
    case Cancelled_in_routine
    then have "nativethread_run_thread env thr w = map_option Exited
        (handler_exec env thr (cancel_cbak ti) (emit E_cancelled ?called))"
      using assms(1)
      by (simp add: nativethread_run_thread_def act_on_cancel_def
          nativethread_cancel_handler_def Let_def)
    with assms show ?thesis
      by (intro exI [of _ "emit E_cancelled ?called"] exI [of _ "cancel_cbak ti"]) auto
  next
    case Cancelled_after_routine
    then have "nativethread_run_thread env thr w = map_option Exited
        (handler_exec env thr (cancel_cbak ti) (emit E_cancelled ?returned))"
      using assms(1)
      by (simp add: nativethread_run_thread_def act_on_cancel_def
          nativethread_cancel_handler_def Let_def)
    with assms show ?thesis
      by (intro exI [of _ "emit E_cancelled ?returned"] exI [of _ "cancel_cbak ti"]) auto
  next
    case Never_returns
    then have "nativethread_run_thread env thr w = Some (Running ?called)"
      using assms(1) by (simp add: nativethread_run_thread_def Let_def)
    with assms show ?thesis
      by (intro exI [of _ ?called] exI [of _ "ok_cbak ti"]) auto
  qed
  then obtain ws cb where ws: "heap ws thr = Some (ThreadInfo_blk ti)" "well_formed ws"
    "r = Running ws \<or> (\<exists>w'. handler_exec env thr cb ws = Some w' \<and> r = Exited w')"
    by blast
  from ws(3) show ?thesis
  proof
    assume "r = Running ws"
    with ws(2) show ?thesis by simp
  next
    assume "\<exists>w'. handler_exec env thr cb ws = Some w' \<and> r = Exited w'"
    then obtain w' where "handler_exec env thr cb ws = Some w'" "r = Exited w'"
      by blast
    with handler_exec_well_formed [OF ws(1) _ ws(2)] show ?thesis
      by simp
  qed
qed

lemma interrupt_well_formed:
  assumes "interrupt ret args w = Some (r, w')" "well_formed w"
  shows "well_formed w'"
  using interrupt_frame [OF assms(1)] assms(2) by (simp add: well_formed_def)

lemma destroy_thread_handle_well_formed:
  "well_formed w \<Longrightarrow> well_formed (destroy_thread_handle handle w)"
  by (simp add: destroy_thread_handle_def well_formed_free split: sum.split)

lemma destroy_thread_handle_keeps_context:
  assumes "heap w thr = Some (ThreadInfo_blk ti)" "well_formed w"
  shows "heap (destroy_thread_handle handle w) thr = Some (ThreadInfo_blk ti)"
proof (cases "PyCapsule_GetPointer w handle THREAD_HANDLE_NAME")
  case (Inl e)
  with assms(1) show ?thesis
    by (simp add: destroy_thread_handle_def)
next
  case (Inr p)
  then have "objs w handle = PyCapsule p (Some THREAD_HANDLE_NAME)"
    by (auto simp add: PyCapsule_GetPointer_def split: pyobject.splits if_splits)
  with assms have "p \<noteq> thr"
    by (auto simp add: well_formed_def)
  with Inr assms(1) show ?thesis
    by (simp add: destroy_thread_handle_def)
qed

lemma launch_well_formed:
  assumes "well_formed w"
  shows "well_formed (snd (do_interruptably env args w))"
proof (cases "malloc_info env")
  case None
  with assms show ?thesis
    by (simp add: launch_no_memory)
next
  case (Some junk)
  show ?thesis
  proof (cases "PyArg_ParseTuple_LOOOO w args")
    case (Inl e)
    from launch_parse_error [OF Some Inl] assms show ?thesis
      by (auto simp add: well_formed_def less_Suc_eq split: if_splits)
  next
    case (Inr parsed)
    then obtain fn ok cancel err d
      where p: "PyArg_ParseTuple_LOOOO w args = Inr (fn, ok, cancel, err, d)"
      by (cases parsed) auto
    show ?thesis
    proof (cases "PyCallable_Check w ok \<and> PyCallable_Check w cancel \<and> PyCallable_Check w err")
      case False
      from launch_not_callable [OF Some p False] assms show ?thesis
        by (auto simp add: well_formed_def less_Suc_eq split: if_splits)
    next
      case True
      show ?thesis
      proof (cases "attr_init_ret env = 0 \<and> setdetachstate_ret env = 0 \<and> create_ret env = 0")
        case False
        then have "attr_init_ret env \<noteq> 0 \<or> setdetachstate_ret env \<noteq> 0 \<or> create_ret env \<noteq> 0"
          by blast
        from launch_create_failed [OF Some p _ _ _ this] True
        obtain w' where w': "snd (do_interruptably env args w) = w'"
          "heap w' = (heap w)(next_addr w := None)" "objs w' = objs w"
          "next_addr w' = Suc (next_addr w)"
          by auto
        with assms show ?thesis
          by (auto simp add: well_formed_def less_Suc_eq split: if_splits)
      next
        case zero: True
        from launch_started [OF Some p] True zero
        obtain w8 where w8:
          "do_interruptably env args w = make_thread_handle env (create_tid env) w8"
          "heap w8 = (heap w)(next_addr w \<mapsto> ThreadInfo_blk
             \<lparr>ok_cbak = ok, cancel_cbak = cancel, err_cbak = err, data = d, routine = fn\<rparr>)"
          "objs w8 = objs w" "next_addr w8 = Suc (next_addr w)"
          by blast
        have wf8: "well_formed w8"
          using assms w8(2-4) by (auto simp add: well_formed_def less_Suc_eq split: if_splits)
        show ?thesis
        proof (cases "malloc_handle env")
          case None
          with w8(1) wf8 show ?thesis
            by (simp add: make_thread_handle_no_memory)
        next
          case (Some j)
          from make_thread_handle_allocated [OF Some, of "create_tid env" w8]
          obtain w' where w': "make_thread_handle env (create_tid env) w8
              = (if capsule_ok env then Inr (next_obj w8) else Inl PyErr_NoMemory, w')"
            "heap w' = (heap w8)(next_addr w8 \<mapsto> pthread_t_blk (create_tid env))"
            "objs w' = (if capsule_ok env
                then (objs w8)(next_obj w8 := PyCapsule (next_addr w8) (Some THREAD_HANDLE_NAME))
                else objs w8)"
            "next_addr w' = Suc (next_addr w8)"
            by blast
          have "well_formed w'"
            using wf8 w'(2-4) by (auto simp add: well_formed_def less_Suc_eq split: if_splits)
          with w8(1) w'(1) show ?thesis
            by simp
        qed
      qed
    qed
  qed
qed

text \<open>
  Claim C8, as the code has it.  On both completion paths \<open>handler_exec\<close> ends with one
  \<open>Py_DECREF\<close> for each of the four fields, in the order \<open>ok_cbak\<close>, \<open>cancel_cbak\<close>,
  \<open>err_cbak\<close>, \<open>data\<close>, then gives the lock back and frees the \<open>ThreadInfo\<close>; before
  them it releases only its own temporaries (the argument tuple and the callback's
  result).  This is so whether the callback returned a value, raised, or was not called.
  Each object loses as many references as it has places among the four fields.  A thread
  that ends runs this exactly once.  For the context of a spawned thread it is the only
  place of destruction.  In a state the module reaches, where the capsules with the
  module's name do not point to a \<open>ThreadInfo\<close>, no other function of the module frees
  the context: \<open>interrupt\<close> changes no block, and the destructor of any handle, the run
  of another thread and any call of \<open>do_interruptably\<close> leave the context as it is.  Each
  of these steps leads to such a state again, and the process starts in one.
  (\<open>do_interruptably\<close> does free the context it has just allocated, on its own failure
  paths.)
\<close>

theorem bridge_releases_all_and_frees:
  assumes "heap w thr = Some (ThreadInfo_blk ti)" and "well_formed w"
  shows "(\<exists>w'. handler_exec env thr cb w = Some w' \<and>
            new_events w w' =
              [E_gil_ensure,
               E_build_value (data ti) (if build_ok env then Some (next_obj w) else None)]
              @ (if build_ok env
                 then E_call cb [data ti] # E_decref (next_obj w)
                      # (case call_ret env of Some x \<Rightarrow> [E_decref x] | None \<Rightarrow> [])
                 else [])
              @ [E_decref (ok_cbak ti), E_decref (cancel_cbak ti), E_decref (err_cbak ti),
                 E_decref (data ti), E_gil_release, E_free thr] \<and>
            (\<forall>x. refs w' x = refs w x
               - int (count_list [ok_cbak ti, cancel_cbak ti, err_cbak ti, data ti] x)) \<and>
            heap w' = (heap w)(thr := None) \<and> well_formed w') \<and>
         (\<exists>r. nativethread_run_thread env thr w = Some r \<and> well_formed (world_of r) \<and>
            (has_exited r \<longrightarrow>
               filter (\<lambda>e. e = E_free thr) (new_events w (world_of r)) = [E_free thr] \<and>
               heap (world_of r) = (heap w)(thr := None) \<and>
               (\<forall>x. refs (world_of r) x = refs w x
                  - int (count_list [ok_cbak ti, cancel_cbak ti, err_cbak ti, data ti] x)))) \<and>
         (\<forall>r w'. interrupt ret iargs w = Some (r, w') \<longrightarrow>
            heap w' = heap w \<and> well_formed w') \<and>
         (\<forall>other ti'. other \<noteq> thr \<and> heap w other = Some (ThreadInfo_blk ti') \<longrightarrow>
            (\<exists>r. nativethread_run_thread env other w = Some r \<and>
               heap (world_of r) thr = Some (ThreadInfo_blk ti) \<and>
               well_formed (world_of r))) \<and>
         heap (snd (do_interruptably lenv args w)) thr = Some (ThreadInfo_blk ti) \<and>
         well_formed (snd (do_interruptably lenv args w)) \<and>
         heap (destroy_thread_handle handle w) thr = Some (ThreadInfo_blk ti) \<and>
         well_formed (destroy_thread_handle handle w)"
proof (intro conjI allI impI)
  from bridge_after [OF assms(1), of w "[]" env cb]
  obtain w' where w': "handler_exec env thr cb w = Some w'"
     "new_events w w' =
              [E_gil_ensure,
               E_build_value (data ti) (if build_ok env then Some (next_obj w) else None)]
              @ (if build_ok env
                 then E_call cb [data ti] # E_decref (next_obj w)
                      # (case call_ret env of Some x \<Rightarrow> [E_decref x] | None \<Rightarrow> [])
                 else [])
              @ [E_decref (ok_cbak ti), E_decref (cancel_cbak ti), E_decref (err_cbak ti),
                 E_decref (data ti), E_gil_release, E_free thr]"
     "\<forall>x. refs w' x = refs w x
               - int (count_list [ok_cbak ti, cancel_cbak ti, err_cbak ti, data ti] x)"
     "heap w' = (heap w)(thr := None)"
    by (auto simp add: new_events_def)
  with handler_exec_well_formed [OF assms(1) w'(1) assms(2)]
  show "\<exists>w'. handler_exec env thr cb w = Some w' \<and>
            new_events w w' =
              [E_gil_ensure,
               E_build_value (data ti) (if build_ok env then Some (next_obj w) else None)]
              @ (if build_ok env
                 then E_call cb [data ti] # E_decref (next_obj w)
                      # (case call_ret env of Some x \<Rightarrow> [E_decref x] | None \<Rightarrow> [])
                 else [])
              @ [E_decref (ok_cbak ti), E_decref (cancel_cbak ti), E_decref (err_cbak ti),
                 E_decref (data ti), E_gil_release, E_free thr] \<and>
            (\<forall>x. refs w' x = refs w x
               - int (count_list [ok_cbak ti, cancel_cbak ti, err_cbak ti, data ti] x)) \<and>
            heap w' = (heap w)(thr := None) \<and> well_formed w'"
    by blast
next
  from run_thread_calls [OF assms(1), of env]
  obtain r where r: "nativethread_run_thread env thr w = Some r"
       "has_exited r \<longrightarrow>
               filter (\<lambda>e. e = E_free thr) (new_events w (world_of r)) = [E_free thr] \<and>
               heap (world_of r) = (heap w)(thr := None) \<and>
               (\<forall>x. refs (world_of r) x = refs w x
                  - int (count_list [ok_cbak ti, cancel_cbak ti, err_cbak ti, data ti] x))"
    by blast
  with run_thread_well_formed [OF assms(1) r(1) assms(2)]
  show "\<exists>r. nativethread_run_thread env thr w = Some r \<and> well_formed (world_of r) \<and>
            (has_exited r \<longrightarrow>
               filter (\<lambda>e. e = E_free thr) (new_events w (world_of r)) = [E_free thr] \<and>
               heap (world_of r) = (heap w)(thr := None) \<and>
               (\<forall>x. refs (world_of r) x = refs w x
                  - int (count_list [ok_cbak ti, cancel_cbak ti, err_cbak ti, data ti] x)))"
    by blast
next
  fix r w'
  assume i: "interrupt ret iargs w = Some (r, w')"
  from interrupt_frame [OF i] show "heap w' = heap w"
    by simp
  from interrupt_well_formed [OF i assms(2)] show "well_formed w'" .
next
  fix other ti'
  assume o: "other \<noteq> thr \<and> heap w other = Some (ThreadInfo_blk ti')"
  then have h: "heap w other = Some (ThreadInfo_blk ti')" and "thr \<noteq> other"
    by auto
  from run_thread_calls [OF h, of env] this(2) assms(1)
  obtain r where r: "nativethread_run_thread env other w = Some r"
     "heap (world_of r) thr = Some (ThreadInfo_blk ti)"
    by metis
  with run_thread_well_formed [OF h r(1) assms(2)]
  show "\<exists>r. nativethread_run_thread env other w = Some r \<and>
               heap (world_of r) thr = Some (ThreadInfo_blk ti) \<and>
               well_formed (world_of r)"
    by blast
next
  have "thr < next_addr w"
    using assms by (auto simp add: well_formed_def)
  then have "thr \<noteq> next_addr w" "thr \<noteq> Suc (next_addr w)"
    by simp_all
  from launch_frame [OF this] assms(1)
  show "heap (snd (do_interruptably lenv args w)) thr = Some (ThreadInfo_blk ti)"
    by simp
next
  show "well_formed (snd (do_interruptably lenv args w))"
    using assms(2) by (rule launch_well_formed)
next
  show "heap (destroy_thread_handle handle w) thr = Some (ThreadInfo_blk ti)"
    using assms by (rule destroy_thread_handle_keeps_context)
next
  show "well_formed (destroy_thread_handle handle w)"
    using assms(2) by (rule destroy_thread_handle_well_formed)
qed

theorem bridge_releases_all_and_frees_witness:
  "well_formed w0 \<and> well_formed w_live \<and> heap w_live 0 = Some (ThreadInfo_blk ti0) \<and>
   (\<exists>w'. handler_exec (tenv0\<lparr>call_ret := None\<rparr>) 0 3 w_live = Some w' \<and>
      new_events w_live w' =
        [E_gil_ensure, E_build_value 5 (Some 10), E_call 3 [5], E_decref 10,
         E_decref 2, E_decref 3, E_decref 4, E_decref 5, E_gil_release, E_free 0] \<and>
      refs w' 2 = 0 \<and> refs w' 3 = 0 \<and> refs w' 4 = 0 \<and> refs w' 5 = 0 \<and>
      heap w' 0 = None \<and> well_formed w') \<and>
   (\<exists>r. nativethread_run_thread tenv0 0 w_live = Some r \<and> has_exited r \<and>
      filter (\<lambda>e. e = E_free 0) (new_events w_live (world_of r)) = [E_free 0] \<and>
      heap (world_of r) 0 = None \<and> well_formed (world_of r)) \<and>
   (\<exists>w'. interrupt 0 [9] w_live = Some (Inr Py_None, w') \<and> heap w' = heap w_live \<and>
      well_formed w') \<and>
   heap (snd (do_interruptably lenv0 [1, 8, 3, 4, 5] w_live)) 0 = Some (ThreadInfo_blk ti0) \<and>
   well_formed (snd (do_interruptably lenv0 [1, 8, 3, 4, 5] w_live)) \<and>
   heap (destroy_thread_handle 9 w_live) 1 = None \<and>
   heap (destroy_thread_handle 9 w_live) 0 = Some (ThreadInfo_blk ti0) \<and>
   well_formed (destroy_thread_handle 9 w_live) \<and>
   well_formed (w_live\<lparr>heap := (heap w_live)(2 \<mapsto> ThreadInfo_blk junk0), next_addr := 3\<rparr>) \<and>
   (\<exists>r. nativethread_run_thread tenv0 2
           (w_live\<lparr>heap := (heap w_live)(2 \<mapsto> ThreadInfo_blk junk0), next_addr := 3\<rparr>)
         = Some r \<and>
      heap (world_of r) 0 = Some (ThreadInfo_blk ti0))"
proof -
  let ?two = "w_live\<lparr>heap := (heap w_live)(2 \<mapsto> ThreadInfo_blk junk0), next_addr := 3\<rparr>"
  have h2: "heap ?two 0 = Some (ThreadInfo_blk ti0)"
    and o2: "(2::nat) \<noteq> 0 \<and> heap ?two 2 = Some (ThreadInfo_blk junk0)"
    by (simp_all add: w_live_def)
  have wf2: "well_formed ?two"
    by (auto simp add: well_formed_def w_live_def objs0_def THREAD_HANDLE_NAME_def
        split: if_splits)
  from bridge_releases_all_and_frees [OF h2 wf2, of tenv0 3 0 "[9]" lenv0 "[1, 8, 3, 4, 5]" 9] o2
  have two: "\<exists>r. nativethread_run_thread tenv0 2 ?two = Some r \<and>
      heap (world_of r) 0 = Some (ThreadInfo_blk ti0)"
    by blast
  have h: "heap w_live 0 = Some (ThreadInfo_blk ti0)"
    and no: "next_obj w_live = 10"
    and rf: "refs w_live 2 = 1" "refs w_live 3 = 1" "refs w_live 4 = 1" "refs w_live 5 = 1"
    by (simp_all add: w_live_def)
  note wf = well_formed_w_live
  obtain wi where wi: "interrupt 0 [9] w_live = Some (Inr Py_None, wi)"
    by (simp add: interrupt_def PyArg_ParseTuple_O_def PyCapsule_CheckExact_def
        PyCapsule_GetPointer_def pthread_cancel_def w_live_def)
  have d: "heap (destroy_thread_handle 9 w_live) 1 = None"
    by (simp add: destroy_thread_handle_def PyCapsule_GetPointer_def w_live_def)
  note t1 = bridge_releases_all_and_frees [OF h wf, of "tenv0\<lparr>call_ret := None\<rparr>" 3 0 "[9]"
      lenv0 "[1, 8, 3, 4, 5]" 9]
  note t2 = bridge_releases_all_and_frees [OF h wf, of tenv0 3 0 "[9]" lenv0 "[1, 8, 3, 4, 5]" 9]
  from t1 obtain w' where w': "handler_exec (tenv0\<lparr>call_ret := None\<rparr>) 0 3 w_live = Some w'"
      "new_events w_live w' =
        [E_gil_ensure, E_build_value 5 (Some 10), E_call 3 [5], E_decref 10,
         E_decref 2, E_decref 3, E_decref 4, E_decref 5, E_gil_release, E_free 0]"
      "refs w' 2 = 0 \<and> refs w' 3 = 0 \<and> refs w' 4 = 0 \<and> refs w' 5 = 0"
      "heap w' 0 = None" "well_formed w'"
    using no rf by (auto simp add: tenv0_def ti0_def)
  from t2 obtain r where r: "nativethread_run_thread tenv0 0 w_live = Some r"
      "well_formed (world_of r)"
      "has_exited r \<longrightarrow>
         filter (\<lambda>e. e = E_free 0) (new_events w_live (world_of r)) = [E_free 0] \<and>
         heap (world_of r) = (heap w_live)(0 := None)"
    by blast
  have e: "has_exited r"
    using r(1) h by (cases r) (auto simp add: nativethread_run_thread_def tenv0_def Let_def)
  have i: "heap wi = heap w_live" "well_formed wi"
    using t1 wi by blast+
  have l: "heap (snd (do_interruptably lenv0 [1, 8, 3, 4, 5] w_live)) 0
      = Some (ThreadInfo_blk ti0)"
    "well_formed (snd (do_interruptably lenv0 [1, 8, 3, 4, 5] w_live))"
    "heap (destroy_thread_handle 9 w_live) 0 = Some (ThreadInfo_blk ti0)"
    "well_formed (destroy_thread_handle 9 w_live)"
    using t1 by blast+
  from r e have "filter (\<lambda>e. e = E_free 0) (new_events w_live (world_of r)) = [E_free 0]"
      "heap (world_of r) 0 = None"
    by simp_all
  with h wf well_formed_w0 w' r(1,2) e wi i l d two wf2 show ?thesis
    by blast
qed

text \<open>
  The claim as stated, that \<open>handler_exec\<close> is the only place a \<open>ThreadInfo\<close> is
  destroyed, fails: a launch with a callback that is not callable allocates the
  \<open>ThreadInfo\<close> at address \<open>0\<close> and frees it itself, with no run of the bridge.
\<close>

theorem launch_frees_context_counterexample:
  "fst (do_interruptably lenv0 [1, 8, 3, 4, 5] w0)
     = Inl (TypeError, ''arguments 2, 3, and 4 must be callable'') \<and>
   trace (snd (do_interruptably lenv0 [1, 8, 3, 4, 5] w0)) = [E_malloc 0, E_free 0] \<and>
   fst (malloc (map_option ThreadInfo_blk (malloc_info lenv0)) w0) = Some 0"
proof -
  have m: "malloc_info lenv0 = Some junk0"
    by (simp add: lenv0_def)
  have p: "PyArg_ParseTuple_LOOOO w0 [1, 8, 3, 4, 5] = Inr (4096, 8, 3, 4, 5)"
    by (simp add: parse_five PyLong_AsLongLong_def PyNumber_Index_def w0_def objs0_def)
  have c: "\<not> (PyCallable_Check w0 8 \<and> PyCallable_Check w0 3 \<and> PyCallable_Check w0 4)"
    by (simp add: PyCallable_Check_def w0_def objs0_def)
  from launch_not_callable [OF m p c] m show ?thesis
    by (auto simp add: malloc_Some w0_def)
qed

end
